theory Spec2Isabelle
  imports Complex_Main
begin

section \<open>Distributed fine-tuning launcher for extractive summarization\<close>

text \<open>
  A shallow embedding of
  \<^verbatim>\<open>examples/text_summarization/extractive_summarization_cnndm_distributed_train.py\<close>.
  The script is glue code: nearly every statement is a call into a library
  (torch, torch.distributed, utils_nlp). Those calls are kept as \<^emph>\<open>events\<close>
  that a process appends to its log, and what a call returns or raises is read from an
  oracle that sees the whole history of the process. The script's own control flow
  (guards, arithmetic, argument wiring, the file-writing loop) is modelled as written.
  The \<^verbatim>\<open>print\<close> statements and the two \<^verbatim>\<open>time.time()\<close> readings are left out.
\<close>

subsection \<open>Python values\<close>

text \<open>
  An exception is either the \<^verbatim>\<open>ZeroDivisionError\<close> of the script's own division or
  whatever a library call raised.
\<close>

datatype py_error = ZeroDivisionError | Raised string

text \<open>
  Python's true division \<^verbatim>\<open>a / b\<close>. Numbers are rationals: a Python \<^verbatim>\<open>int\<close> or
  \<^verbatim>\<open>float\<close> is read as the number it denotes and the quotient is the exact one
  (the rounding of binary floating point is not represented).
\<close>

definition py_truediv :: "rat \<Rightarrow> int \<Rightarrow> py_error + rat" where
  "py_truediv a b = (if b = 0 then Inl ZeroDivisionError else Inr (a / of_int b))"

text \<open>\<^verbatim>\<open>str.lower()\<close> on ASCII text: only \<^verbatim>\<open>A..Z\<close> change.\<close>

definition lower_char :: "char \<Rightarrow> char" where
  "lower_char c =
     (let k = (of_char c :: nat) in if 65 \<le> k \<and> k \<le> 90 then char_of (k + 32) else c)"

definition py_lower :: "string \<Rightarrow> string" where
  "py_lower s = map lower_char s"

text \<open>
  The slice \<^verbatim>\<open>xs[lo:hi]\<close> of a sequence: a negative bound counts from the end, and
  both bounds are clamped to the sequence.
\<close>

definition py_slice :: "'a list \<Rightarrow> int \<Rightarrow> int \<Rightarrow> 'a list" where
  "py_slice xs lo hi =
     (let n = int (length xs);
          lo' = (if lo < 0 then max (lo + n) 0 else min lo n);
          hi' = (if hi < 0 then max (hi + n) 0 else min hi n)
      in take (nat (hi' - lo')) (drop (nat lo') xs))"

text \<open>\<^verbatim>\<open>str(n)\<close> for an integer: its decimal digits, with a sign when negative.\<close>

definition digit_char :: "nat \<Rightarrow> char" where
  "digit_char d = char_of (48 + d)"

fun str_nat :: "nat \<Rightarrow> string" where
  "str_nat n = (if n < 10 then [digit_char n] else str_nat (n div 10) @ [digit_char (n mod 10)])"

declare str_nat.simps [simp del]

definition py_str :: "int \<Rightarrow> string" where
  "py_str i = (if i < 0 then CHR ''-'' # str_nat (nat (- i)) else str_nat (nat i))"

text \<open>
  \<^verbatim>\<open>os.path.join(a, b)\<close> on a POSIX system: an absolute \<^verbatim>\<open>b\<close> replaces \<^verbatim>\<open>a\<close>,
  otherwise the two are joined with exactly one separator between them.
\<close>

definition os_path_join :: "string \<Rightarrow> string \<Rightarrow> string" where
  "os_path_join a b =
     (if take 1 b = ''/'' then b
      else if a = [] \<or> last a = CHR ''/'' then a @ b
      else a @ ''/'' @ b)"

subsection \<open>Data\<close>

text \<open>
  The namespace returned by \<^verbatim>\<open>parser.parse_args()\<close>. \<^verbatim>\<open>max_steps\<close> and
  \<^verbatim>\<open>warmup_steps\<close> are integers when given on the command line and the floats
  \<^verbatim>\<open>1e4\<close> and \<^verbatim>\<open>5e3\<close> by default; \<^verbatim>\<open>train_file\<close> and \<^verbatim>\<open>test_file\<close> default to
  \<^verbatim>\<open>None\<close>.
\<close>

record args =
  rank :: int
  dist_url :: string
  node_count :: int
  cache_dir :: string
  data_dir :: string
  output_dir :: string
  quick_run :: string
  model_name :: string
  encoder :: string
  max_pos_length :: int
  learning_rate :: rat
  batch_size :: int
  max_steps :: rat
  warmup_steps :: rat
  top_n :: int
  summary_filename :: string
  model_filename :: string
  train_file :: "string option"
  test_file :: "string option"

text \<open>
  Raw documents and preprocessed samples belong to the libraries; the script only moves
  them around, so they are opaque tokens here.
\<close>

datatype raw = RawDoc nat

datatype sample = Sample nat

datatype processor = ExtSumProcessor string

datatype summarizer = ExtractiveSummarizer processor string string int string

text \<open>The keyword arguments of one \<^verbatim>\<open>summarizer.fit(...)\<close> call.\<close>

record fit_call =
  fit_train_dataset :: "sample list"
  fit_num_gpus :: int
  fit_batch_size :: int
  fit_gradient_accumulation_steps :: int
  fit_max_steps :: rat
  fit_learning_rate :: rat
  fit_warmup_steps :: rat
  fit_verbose :: bool
  fit_report_every :: int
  fit_clip_grad_norm :: bool
  fit_local_rank :: int
  fit_save_every :: int
  fit_world_size :: int
  fit_rank :: int

text \<open>The library calls a process makes, with the arguments it passes.\<close>

datatype event =
    MakeDirs string bool
  | ExtSumProcessorInit string
  | ExtractiveSummarizerInit processor string string int string
  | Spawn int
  | InitProcessGroup string string int int
  | Barrier
  | CNNDMSummarizationDataset int string
  | Preprocess "raw list" string
  | TorchLoad string
  | Fit fit_call
  | SaveModel string
  | Predict "sample list" int
  | OpenW string
  | Write string string
  | DestroyProcessGroup

text \<open>
  A process's view of the world: the calls it has started so far, oldest first, and the
  text files it can see.
\<close>

record world =
  log :: "event list"
  files :: "string \<rightharpoonup> string"

text \<open>
  The libraries' behaviour. Each oracle is asked with the log that ends in the call
  being made: \<open>x_raises\<close> says whether a call that returns nothing raises, the others
  give the value or the exception of a call that returns something.
\<close>

record ext =
  x_raises :: "event list \<Rightarrow> py_error option"
  x_dataset :: "event list \<Rightarrow> py_error + raw list \<times> raw list"
  x_preprocess :: "event list \<Rightarrow> py_error + sample list"
  x_torch_load :: "event list \<Rightarrow> py_error + sample list"
  x_predict :: "event list \<Rightarrow> py_error + string list"

subsection \<open>Sequencing with exceptions\<close>

type_synonym 'a exec = "world \<Rightarrow> (py_error + 'a) \<times> world"

definition ret :: "'a \<Rightarrow> 'a exec" where
  "ret v = (\<lambda>w. (Inr v, w))"

definition lift :: "py_error + 'a \<Rightarrow> 'a exec" where
  "lift r = (\<lambda>w. (r, w))"

text \<open>
  \<open>m\<close>, then \<open>f\<close> on its value. An exception of \<open>m\<close> ends the sequence: the script has
  no \<^verbatim>\<open>try\<close>, so there is no operator that catches one.
\<close>

definition andthen :: "'a exec \<Rightarrow> ('a \<Rightarrow> 'b exec) \<Rightarrow> 'b exec" where
  "andthen m f = (\<lambda>w. case m w of (Inl e, w') \<Rightarrow> (Inl e, w') | (Inr v, w') \<Rightarrow> f v w')"

text \<open>A library call that returns nothing, and one that returns a value.\<close>

definition call :: "ext \<Rightarrow> event \<Rightarrow> unit exec" where
  "call x ev = (\<lambda>w.
     let h = log w @ [ev]
     in (case x_raises x h of Some e \<Rightarrow> Inl e | None \<Rightarrow> Inr (), w\<lparr>log := h\<rparr>))"

definition call_val :: "(event list \<Rightarrow> py_error + 'a) \<Rightarrow> event \<Rightarrow> 'a exec" where
  "call_val f ev = (\<lambda>w. let h = log w @ [ev] in (f h, w\<lparr>log := h\<rparr>))"

subsection \<open>Module level\<close>

text \<open>
  The three assignments to \<^verbatim>\<open>os.environ\<close> executed when the module is loaded;
  \<open>device_count\<close> is what \<^verbatim>\<open>torch.cuda.device_count()\<close> returns.
\<close>

definition module_environ :: "nat \<Rightarrow> (string \<rightharpoonup> string) \<Rightarrow> (string \<rightharpoonup> string)" where
  "module_environ device_count environ =
     environ(''NCCL_IB_DISABLE'' \<mapsto> ''0'',
             ''OMP_NUM_THREADS'' \<mapsto> py_str (int device_count),
             ''KMP_AFFINITY'' \<mapsto> ''verbose'')"

definition cleanup :: "ext \<Rightarrow> unit exec" where
  "cleanup x = call x DestroyProcessGroup"

definition REPORT_EVERY :: int where
  "REPORT_EVERY = 100"

definition SAVE_EVERY :: int where
  "SAVE_EVERY = 1000"

subsection \<open>The worker\<close>

text \<open>
  The nested function \<^verbatim>\<open>_write_list_to_file\<close>: opening with mode \<^verbatim>\<open>"w"\<close> creates or
  empties the file, and each \<^verbatim>\<open>write("%s\n" % item)\<close> appends the item and a
  newline.
\<close>

definition open_w :: "ext \<Rightarrow> string \<Rightarrow> unit exec" where
  "open_w x filename =
     andthen (call x (OpenW filename))
       (\<lambda>_ w. (Inr (), w\<lparr>files := (files w)(filename \<mapsto> [])\<rparr>))"

definition filehandle_write :: "ext \<Rightarrow> string \<Rightarrow> string \<Rightarrow> unit exec" where
  "filehandle_write x filename s =
     andthen (call x (Write filename s))
       (\<lambda>_ w. (Inr (),
          w\<lparr>files := (files w)(filename \<mapsto>
               (case files w filename of None \<Rightarrow> [] | Some t \<Rightarrow> t) @ s)\<rparr>))"

fun write_items :: "ext \<Rightarrow> string \<Rightarrow> string list \<Rightarrow> unit exec" where
  "write_items x filename [] = ret ()"
| "write_items x filename (item # list_items) =
     andthen (filehandle_write x filename (item @ [CHR 0x0A]))
       (\<lambda>_. write_items x filename list_items)"

definition write_list_to_file :: "ext \<Rightarrow> string list \<Rightarrow> string \<Rightarrow> unit exec" where
  "write_list_to_file x list_items filename =
     andthen (open_w x filename) (\<lambda>_. write_items x filename list_items)"

text \<open>
  The start of \<^verbatim>\<open>main_worker\<close> sets three local variables for a quick run and
  overwrites all three when \<^verbatim>\<open>args.quick_run.lower() == "false"\<close>.
\<close>

definition MAX_STEPS :: "args \<Rightarrow> rat" where
  "MAX_STEPS a = (if py_lower (quick_run a) = ''false'' then max_steps a else 10)"

definition WARMUP_STEPS :: "args \<Rightarrow> rat" where
  "WARMUP_STEPS a = (if py_lower (quick_run a) = ''false'' then warmup_steps a else 500)"

definition TOP_N :: "args \<Rightarrow> int" where
  "TOP_N a = (if py_lower (quick_run a) = ''false'' then - 1 else 10)"

text \<open>
  The data-acquisition block: build the raw dataset and preprocess both halves when a
  file name is missing, otherwise load both files. It yields
  \<^verbatim>\<open>(ext_sum_train, ext_sum_test)\<close>.
\<close>

definition acquire_data :: "ext \<Rightarrow> args \<Rightarrow> (sample list \<times> sample list) exec" where
  "acquire_data x a =
     (if train_file a = None \<or> test_file a = None then
        andthen (call_val (x_dataset x) (CNNDMSummarizationDataset (TOP_N a) (data_dir a)))
          (\<lambda>(train_dataset, test_dataset).
        andthen (call_val (x_preprocess x) (Preprocess train_dataset ''greedy''))
          (\<lambda>ext_sum_train.
        andthen (call_val (x_preprocess x) (Preprocess test_dataset ''greedy''))
          (\<lambda>ext_sum_test.
        ret (ext_sum_train, ext_sum_test))))
      else
        andthen (call_val (x_torch_load x)
                   (TorchLoad (os_path_join (data_dir a) (the (train_file a)))))
          (\<lambda>ext_sum_train.
        andthen (call_val (x_torch_load x)
                   (TorchLoad (os_path_join (data_dir a) (the (test_file a)))))
          (\<lambda>ext_sum_test.
        ret (ext_sum_train, ext_sum_test))))"

text \<open>
  The training block: choose \<^verbatim>\<open>save_every\<close>, then call \<^verbatim>\<open>summarizer.fit\<close>. The
  quotient \<^verbatim>\<open>MAX_STEPS / world_size\<close> is evaluated while the arguments are built, so
  a zero \<^verbatim>\<open>world_size\<close> raises before \<^verbatim>\<open>fit\<close> is called.
\<close>

definition train :: "ext \<Rightarrow> args \<Rightarrow> int \<Rightarrow> int \<Rightarrow> int \<Rightarrow> sample list \<Rightarrow> unit exec" where
  "train x a local_rank rank' world_size ext_sum_train =
     (let save_every = (if rank' \<notin> {- 1, 0} then - 1 else SAVE_EVERY) in
      andthen (lift (py_truediv (MAX_STEPS a) world_size)) (\<lambda>scaled_max_steps.
      call x (Fit \<lparr>
        fit_train_dataset = ext_sum_train,
        fit_num_gpus = world_size,
        fit_batch_size = batch_size a,
        fit_gradient_accumulation_steps = 1,
        fit_max_steps = scaled_max_steps,
        fit_learning_rate = learning_rate a,
        fit_warmup_steps = WARMUP_STEPS a,
        fit_verbose = True,
        fit_report_every = REPORT_EVERY,
        fit_clip_grad_norm = False,
        fit_local_rank = local_rank,
        fit_save_every = save_every,
        fit_world_size = world_size,
        fit_rank = rank'\<rparr>)))"

text \<open>The body of the final \<^verbatim>\<open>if\<close>: save the model, predict, write the summaries.\<close>

definition save_and_predict :: "ext \<Rightarrow> args \<Rightarrow> sample list \<Rightarrow> unit exec" where
  "save_and_predict x a ext_sum_test =
     andthen (call x (SaveModel (os_path_join (output_dir a) (model_filename a)))) (\<lambda>_.
     andthen (call_val (x_predict x) (Predict (py_slice ext_sum_test 0 (TOP_N a)) 128))
       (\<lambda>prediction.
     write_list_to_file x prediction (os_path_join (output_dir a) (summary_filename a))))"

text \<open>
  \<^verbatim>\<open>main_worker(local_rank, ngpus_per_node, summarizer, args)\<close>: the blocks above in
  the order of the source, with the three barriers and their guards between them.
\<close>

definition main_worker :: "ext \<Rightarrow> int \<Rightarrow> int \<Rightarrow> summarizer \<Rightarrow> args \<Rightarrow> unit exec" where
  "main_worker x local_rank ngpus_per_node summarizer a =
     (let rank' = rank a * ngpus_per_node + local_rank;
          world_size = node_count a * ngpus_per_node
      in
      andthen (call x (InitProcessGroup ''nccl'' (dist_url a) world_size rank')) (\<lambda>_.
      andthen (if local_rank \<notin> {- 1, 0} then call x Barrier else ret ()) (\<lambda>_.
      andthen (acquire_data x a) (\<lambda>(ext_sum_train, ext_sum_test).
      andthen (if local_rank \<in> {- 1, 0} then call x Barrier else ret ()) (\<lambda>_.
      andthen (train x a local_rank rank' world_size ext_sum_train) (\<lambda>_.
      andthen (call x Barrier) (\<lambda>_.
      andthen (if local_rank \<in> {- 1, 0} \<and> rank a = 0
               then save_and_predict x a ext_sum_test else ret ()) (\<lambda>_.
      cleanup x))))))))"

subsection \<open>The launcher\<close>

text \<open>
  \<^verbatim>\<open>mp.spawn(fn, nprocs, args)\<close> starts \<open>nprocs\<close> processes; process \<open>i\<close> runs
  \<^verbatim>\<open>fn(i, *args)\<close> with \<open>i\<close> from \<open>0\<close> to \<open>nprocs - 1\<close>. Each process has its own
  log and its own oracle, and sees the files as they are when it starts; the value
  lists what every process did. How the processes interleave is not modelled.
\<close>

definition mp_spawn ::
  "ext \<Rightarrow> (int \<Rightarrow> unit exec) \<Rightarrow> int \<Rightarrow> ((py_error + unit) \<times> world) list exec" where
  "mp_spawn x fn nprocs =
     andthen (call x (Spawn nprocs))
       (\<lambda>_ w. (Inr (map (\<lambda>i. fn i \<lparr>log = [], files = files w\<rparr>) [0..nprocs - 1]), w))"

text \<open>
  \<^verbatim>\<open>main()\<close>, given the parsed arguments and the device count. \<open>xs i\<close> is the
  oracle of worker \<open>i\<close>.
\<close>

definition main ::
  "ext \<Rightarrow> (int \<Rightarrow> ext) \<Rightarrow> nat \<Rightarrow> args \<Rightarrow> ((py_error + unit) \<times> world) list exec" where
  "main x xs device_count a =
     andthen (call x (MakeDirs (output_dir a) True)) (\<lambda>_.
     andthen (call x (MakeDirs (cache_dir a) True)) (\<lambda>_.
     let ngpus_per_node = int device_count in
     andthen (call x (ExtSumProcessorInit (model_name a))) (\<lambda>_.
     let processor = ExtSumProcessor (model_name a) in
     andthen (call x (ExtractiveSummarizerInit processor (model_name a) (encoder a)
                        (max_pos_length a) (cache_dir a))) (\<lambda>_.
     let summarizer = ExtractiveSummarizer processor (model_name a) (encoder a)
                        (max_pos_length a) (cache_dir a) in
     mp_spawn x
       (\<lambda>local_rank. main_worker (xs local_rank) local_rank ngpus_per_node summarizer a)
       ngpus_per_node))))"

subsection \<open>Notions used to state the properties\<close>

text \<open>No library call ever raises: the error-free runs.\<close>

definition never_raises :: "ext \<Rightarrow> bool" where
  "never_raises x \<longleftrightarrow>
     (\<forall>h. x_raises x h = None \<and> \<not> isl (x_dataset x h) \<and> \<not> isl (x_preprocess x h)
        \<and> \<not> isl (x_torch_load x h) \<and> \<not> isl (x_predict x h))"

text \<open>What the last call of a history raised, if it raised.\<close>

definition call_outcome :: "ext \<Rightarrow> event list \<Rightarrow> py_error option" where
  "call_outcome x h =
     (case rev h of
        [] \<Rightarrow> None
      | CNNDMSummarizationDataset _ _ # _ \<Rightarrow>
          (case x_dataset x h of Inl e \<Rightarrow> Some e | Inr _ \<Rightarrow> None)
      | Preprocess _ _ # _ \<Rightarrow>
          (case x_preprocess x h of Inl e \<Rightarrow> Some e | Inr _ \<Rightarrow> None)
      | TorchLoad _ # _ \<Rightarrow>
          (case x_torch_load x h of Inl e \<Rightarrow> Some e | Inr _ \<Rightarrow> None)
      | Predict _ _ # _ \<Rightarrow>
          (case x_predict x h of Inl e \<Rightarrow> Some e | Inr _ \<Rightarrow> None)
      | _ # _ \<Rightarrow> x_raises x h)"

text \<open>
  A run that made the calls \<open>new\<close> after history \<open>h\<close> and ended with \<open>r\<close> stops at the
  first call that raises: such a call is the last one made, and its exception is the
  result of the run.
\<close>

definition stops_at_raise :: "ext \<Rightarrow> event list \<Rightarrow> event list \<Rightarrow> py_error + 'a \<Rightarrow> bool" where
  "stops_at_raise x h new r \<longleftrightarrow>
     (\<forall>p t e. new = p @ t \<and> p \<noteq> [] \<and> call_outcome x (h @ p) = Some e \<longrightarrow> t = [] \<and> r = Inl e)"

text \<open>
  A computation only appends to the log, stops at the first call that raises, and
  tears the process group down at most as its very last call (\<open>final\<close>) or not at all.
\<close>

definition obeys :: "ext \<Rightarrow> bool \<Rightarrow> 'a exec \<Rightarrow> bool" where
  "obeys x final m \<longleftrightarrow>
     (\<forall>w. \<exists>new. log (snd (m w)) = log w @ new
        \<and> DestroyProcessGroup \<notin> set (if final then butlast new else new)
        \<and> stops_at_raise x (log w) new (fst (m w)))"

fun returns_nothing :: "event \<Rightarrow> bool" where
  "returns_nothing (CNNDMSummarizationDataset _ _) = False"
| "returns_nothing (Preprocess _ _) = False"
| "returns_nothing (TorchLoad _) = False"
| "returns_nothing (Predict _ _) = False"
| "returns_nothing _ = True"

text \<open>The calls of the data-acquisition block and of the rank-0 block.\<close>

fun acquires :: "event \<Rightarrow> bool" where
  "acquires (CNNDMSummarizationDataset _ _) = True"
| "acquires (Preprocess _ _) = True"
| "acquires (TorchLoad _) = True"
| "acquires _ = False"


text \<open>The argument records of the \<^verbatim>\<open>fit\<close> calls in a log.\<close>

fun fit_calls :: "event list \<Rightarrow> fit_call list" where
  "fit_calls [] = []"
| "fit_calls (Fit c # es) = c # fit_calls es"
| "fit_calls (_ # es) = fit_calls es"

text \<open>The data set and batch size of the \<^verbatim>\<open>predict\<close> calls in a log.\<close>

fun predict_calls :: "event list \<Rightarrow> (sample list \<times> int) list" where
  "predict_calls [] = []"
| "predict_calls (Predict d b # es) = (d, b) # predict_calls es"
| "predict_calls (_ # es) = predict_calls es"

text \<open>The number of newline-terminated lines of a text, and the value of a decimal numeral.\<close>

definition line_count :: "string \<Rightarrow> nat" where
  "line_count s = count_list s (CHR 0x0A)"

definition decimal_value :: "string \<Rightarrow> nat" where
  "decimal_value s = foldl (\<lambda>acc c. 10 * acc + (of_char c - 48)) 0 s"

text \<open>The characters \<^verbatim>\<open>0\<close> to \<^verbatim>\<open>9\<close>, by their codes.\<close>

definition is_digit :: "char \<Rightarrow> bool" where
  "is_digit c \<longleftrightarrow> 48 \<le> (of_char c :: nat) \<and> (of_char c :: nat) \<le> 57"

text \<open>
  The log of a worker whose library calls all return, put together from what the calls
  returned: the acquisition calls \<open>acq\<close>, the two data sets and the predictions.
\<close>

definition worker_head :: "args \<Rightarrow> int \<Rightarrow> int \<Rightarrow> event list" where
  "worker_head a l n =
     InitProcessGroup ''nccl'' (dist_url a) (node_count a * n) (rank a * n + l)
     # (if l \<notin> {- 1, 0} then [Barrier] else [])"

definition fit_event :: "args \<Rightarrow> int \<Rightarrow> int \<Rightarrow> sample list \<Rightarrow> event" where
  "fit_event a l n ext_sum_train = Fit \<lparr>
     fit_train_dataset = ext_sum_train,
     fit_num_gpus = node_count a * n,
     fit_batch_size = batch_size a,
     fit_gradient_accumulation_steps = 1,
     fit_max_steps = MAX_STEPS a / of_int (node_count a * n),
     fit_learning_rate = learning_rate a,
     fit_warmup_steps = WARMUP_STEPS a,
     fit_verbose = True,
     fit_report_every = REPORT_EVERY,
     fit_clip_grad_norm = False,
     fit_local_rank = l,
     fit_save_every = (if rank a * n + l \<notin> {- 1, 0} then - 1 else SAVE_EVERY),
     fit_world_size = node_count a * n,
     fit_rank = rank a * n + l\<rparr>"

definition summary_text :: "string list \<Rightarrow> string" where
  "summary_text list_items = concat (map (\<lambda>item. item @ [CHR 0x0A]) list_items)"

definition save_predict_events :: "args \<Rightarrow> sample list \<Rightarrow> event list" where
  "save_predict_events a ext_sum_test =
     [SaveModel (os_path_join (output_dir a) (model_filename a)),
      Predict (py_slice ext_sum_test 0 (TOP_N a)) 128]"

definition rank0_events :: "args \<Rightarrow> sample list \<Rightarrow> string list \<Rightarrow> event list" where
  "rank0_events a ext_sum_test prediction =
     save_predict_events a ext_sum_test
     @ OpenW (os_path_join (output_dir a) (summary_filename a))
     # map (\<lambda>item. Write (os_path_join (output_dir a) (summary_filename a)) (item @ [CHR 0x0A]))
         prediction"

definition worker_log ::
  "args \<Rightarrow> int \<Rightarrow> int \<Rightarrow> event list \<Rightarrow> sample list \<Rightarrow> sample list \<Rightarrow> string list \<Rightarrow> event list"
  where
  "worker_log a l n acq ext_sum_train ext_sum_test prediction =
     worker_head a l n @ acq @ (if l \<in> {- 1, 0} then [Barrier] else [])
     @ [fit_event a l n ext_sum_train, Barrier]
     @ (if l \<in> {- 1, 0} \<and> rank a = 0 then rank0_events a ext_sum_test prediction else [])
     @ [DestroyProcessGroup]"

text \<open>
  After history \<open>h\<close> the calls \<open>acq\<close> were the data acquisition, and they returned the
  two data sets.
\<close>

definition acquired ::
  "ext \<Rightarrow> args \<Rightarrow> event list \<Rightarrow> event list \<Rightarrow> sample list \<Rightarrow> sample list \<Rightarrow> bool" where
  "acquired x a h acq ext_sum_train ext_sum_test \<longleftrightarrow>
     (if train_file a = None \<or> test_file a = None then
        \<exists>train_dataset test_dataset.
          acq = [CNNDMSummarizationDataset (TOP_N a) (data_dir a),
                 Preprocess train_dataset ''greedy'', Preprocess test_dataset ''greedy''] \<and>
          x_dataset x (h @ take 1 acq) = Inr (train_dataset, test_dataset) \<and>
          x_preprocess x (h @ take 2 acq) = Inr ext_sum_train \<and>
          x_preprocess x (h @ acq) = Inr ext_sum_test
      else
        acq = [TorchLoad (os_path_join (data_dir a) (the (train_file a))),
               TorchLoad (os_path_join (data_dir a) (the (test_file a)))] \<and>
        x_torch_load x (h @ take 1 acq) = Inr ext_sum_train \<and>
        x_torch_load x (h @ acq) = Inr ext_sum_test)"


definition through_acquisition :: "event list \<Rightarrow> event list" where
  "through_acquisition es = rev (dropWhile (\<lambda>e. \<not> acquires e) (rev es))"

text \<open>The stages a worker goes through, one per kind of call.\<close>

datatype stage = Joining | Synchronizing | Acquiring | Training | Finalizing | Leaving | Launching

fun stage_of :: "event \<Rightarrow> stage" where
  "stage_of (InitProcessGroup _ _ _ _) = Joining"
| "stage_of Barrier = Synchronizing"
| "stage_of (CNNDMSummarizationDataset _ _) = Acquiring"
| "stage_of (Preprocess _ _) = Acquiring"
| "stage_of (TorchLoad _) = Acquiring"
| "stage_of (Fit _) = Training"
| "stage_of (SaveModel _) = Finalizing"
| "stage_of (Predict _ _) = Finalizing"
| "stage_of (OpenW _) = Finalizing"
| "stage_of (Write _ _) = Finalizing"
| "stage_of DestroyProcessGroup = Leaving"
| "stage_of _ = Launching"

subsection \<open>Sample inputs\<close>

text \<open>The defaults of the argument parser.\<close>

definition default_args :: args where
  "default_args = \<lparr>
     rank = 0, dist_url = ''tcp://127.0.0.1:29501'', node_count = 1, cache_dir = ''./'',
     data_dir = ''./'', output_dir = ''./'', quick_run = ''false'',
     model_name = ''distilbert-base-uncased'', encoder = ''transformer'',
     max_pos_length = 512, learning_rate = 1 / 1000, batch_size = 5, max_steps = 10000,
     warmup_steps = 5000, top_n = 3, summary_filename = ''generated_summaries.txt'',
     model_filename = ''dist_extsum_model.pt'', train_file = None, test_file = None\<rparr>"

definition quick_args :: args where
  "quick_args = default_args\<lparr>quick_run := ''true''\<rparr>"

definition file_args :: args where
  "file_args = default_args\<lparr>train_file := Some ''train.pt'', test_file := Some ''test.pt''\<rparr>"

definition sample_summarizer :: summarizer where
  "sample_summarizer =
     ExtractiveSummarizer (ExtSumProcessor ''distilbert-base-uncased'')
       ''distilbert-base-uncased'' ''transformer'' 512 ''./''"

text \<open>Libraries that never raise, and libraries whose \<^verbatim>\<open>torch.load\<close> always raises.\<close>

definition quiet_ext :: ext where
  "quiet_ext = \<lparr>
     x_raises = (\<lambda>h. None),
     x_dataset = (\<lambda>h. Inr ([RawDoc 0, RawDoc 1], [RawDoc 2, RawDoc 3, RawDoc 4])),
     x_preprocess = (\<lambda>h. Inr [Sample 0, Sample 1, Sample 2]),
     x_torch_load = (\<lambda>h. Inr [Sample 0, Sample 1, Sample 2]),
     x_predict = (\<lambda>h. Inr [''first summary'', ''second summary''])\<rparr>"


definition fresh_world :: world where
  "fresh_world = \<lparr>log = [], files = Map.empty\<rparr>"

text \<open>An environment before the module is loaded.\<close>

definition sample_environ :: "string \<rightharpoonup> string" where
  "sample_environ = [''PATH'' \<mapsto> ''/usr/bin'', ''OMP_NUM_THREADS'' \<mapsto> ''1'']"

text \<open>A summary that contains a line break.\<close>

definition broken_summary :: string where
  "broken_summary = [CHR ''a'', CHR 0x0A, CHR ''b'']"

section \<open>Basic facts\<close>

subsection \<open>Runs in which no call raises\<close>

lemma andthen_returns: "m w = (Inr v, w1) \<Longrightarrow> andthen m f w = f v w1"
  by (simp add: andthen_def)

lemma call_returns:
  "x_raises x (log w @ [ev]) = None \<Longrightarrow> call x ev w = (Inr (), w\<lparr>log := log w @ [ev]\<rparr>)"
  by (simp add: call_def Let_def)

lemma never_raisesD:
  assumes "never_raises x"
  shows "x_raises x h = None"
    and "\<exists>v. x_dataset x h = Inr v"
    and "\<exists>v. x_preprocess x h = Inr v"
    and "\<exists>v. x_torch_load x h = Inr v"
    and "\<exists>v. x_predict x h = Inr v"
  using assms unfolding never_raises_def
  by (simp, (metis sum.collapse(2))+)

lemma write_items_returns:
  assumes "\<forall>h. x_raises x h = None" and "files w filename = Some t"
  shows "write_items x filename items w =
           (Inr (), w\<lparr>log := log w @ map (\<lambda>item. Write filename (item @ [CHR 0x0A])) items,
                       files := (files w)(filename \<mapsto> t @ concat (map (\<lambda>item. item @ [CHR 0x0A]) items))\<rparr>)"
  using assms(2)
proof (induction items arbitrary: w t)
  case Nil
  then show ?case by (simp add: ret_def map_upd_triv)
next
  case (Cons item items)
  let ?w1 = "w\<lparr>log := log w @ [Write filename (item @ [CHR 0x0A])],
                files := (files w)(filename \<mapsto> t @ item @ [CHR 0x0A])\<rparr>"
  have step: "filehandle_write x filename (item @ [CHR 0x0A]) w = (Inr (), ?w1)"
    using assms(1) Cons.prems by (simp add: filehandle_write_def andthen_def call_returns)
  have "files ?w1 filename = Some (t @ item @ [CHR 0x0A])" by simp
  from Cons.IH [OF this] step show ?case
    by (simp add: andthen_def fun_eq_iff)
qed

lemma write_list_to_file_returns:
  assumes "\<forall>h. x_raises x h = None"
  shows "write_list_to_file x items filename w =
           (Inr (), w\<lparr>log := log w @ OpenW filename # map (\<lambda>item. Write filename (item @ [CHR 0x0A])) items,
                       files := (files w)(filename \<mapsto> concat (map (\<lambda>item. item @ [CHR 0x0A]) items))\<rparr>)"
proof -
  let ?w1 = "w\<lparr>log := log w @ [OpenW filename], files := (files w)(filename \<mapsto> [])\<rparr>"
  have o: "open_w x filename w = (Inr (), ?w1)"
    using assms by (simp add: open_w_def andthen_def call_returns)
  have "files ?w1 filename = Some []" by simp
  from write_items_returns [OF assms this, of items] o show ?thesis
    by (simp add: write_list_to_file_def andthen_def)
qed

lemma acquire_data_returns:
  assumes nr: "never_raises x"
  shows "\<exists>acq ext_sum_train ext_sum_test.
     acquire_data x a w = (Inr (ext_sum_train, ext_sum_test), w\<lparr>log := log w @ acq\<rparr>) \<and>
     (if train_file a = None \<or> test_file a = None then
        \<exists>train_dataset test_dataset.
          acq = [CNNDMSummarizationDataset (TOP_N a) (data_dir a),
                 Preprocess train_dataset ''greedy'', Preprocess test_dataset ''greedy''] \<and>
          x_dataset x (log w @ take 1 acq) = Inr (train_dataset, test_dataset) \<and>
          x_preprocess x (log w @ take 2 acq) = Inr ext_sum_train \<and>
          x_preprocess x (log w @ acq) = Inr ext_sum_test
      else
        acq = [TorchLoad (os_path_join (data_dir a) (the (train_file a))),
               TorchLoad (os_path_join (data_dir a) (the (test_file a)))] \<and>
        x_torch_load x (log w @ take 1 acq) = Inr ext_sum_train \<and>
        x_torch_load x (log w @ acq) = Inr ext_sum_test)"
proof (cases "train_file a = None \<or> test_file a = None")
  case True
  note R = never_raisesD [OF nr]
  let ?e1 = "CNNDMSummarizationDataset (TOP_N a) (data_dir a)"
  obtain tr te where d: "x_dataset x (log w @ [?e1]) = Inr (tr, te)"
    using R(2) by (metis surj_pair)
  obtain train where p1: "x_preprocess x (log w @ [?e1, Preprocess tr ''greedy'']) = Inr train"
    using R(3) by blast
  obtain test where p2:
    "x_preprocess x (log w @ [?e1, Preprocess tr ''greedy'', Preprocess te ''greedy'']) = Inr test"
    using R(3) by blast
  have "acquire_data x a w = (Inr (train, test),
          w\<lparr>log := log w @ [?e1, Preprocess tr ''greedy'', Preprocess te ''greedy'']\<rparr>)"
    using True d p1 p2 by (simp add: acquire_data_def andthen_def call_val_def ret_def)
  with True d p1 p2 show ?thesis by (intro exI conjI) auto
next
  case False
  note R = never_raisesD [OF nr]
  let ?e1 = "TorchLoad (os_path_join (data_dir a) (the (train_file a)))"
  let ?e2 = "TorchLoad (os_path_join (data_dir a) (the (test_file a)))"
  obtain train where p1: "x_torch_load x (log w @ [?e1]) = Inr train"
    using R(4) by blast
  obtain test where p2: "x_torch_load x (log w @ [?e1, ?e2]) = Inr test"
    using R(4) by blast
  have "acquire_data x a w = (Inr (train, test), w\<lparr>log := log w @ [?e1, ?e2]\<rparr>)"
    using False p1 p2 by (auto simp add: acquire_data_def andthen_def call_val_def ret_def)
  with False p1 p2 show ?thesis by (intro exI conjI) auto
qed

lemma train_returns:
  assumes "never_raises x" and "world_size \<noteq> 0"
  shows "train x a local_rank rank' world_size ext_sum_train w =
     (Inr (), w\<lparr>log := log w @ [Fit \<lparr>
        fit_train_dataset = ext_sum_train,
        fit_num_gpus = world_size,
        fit_batch_size = batch_size a,
        fit_gradient_accumulation_steps = 1,
        fit_max_steps = MAX_STEPS a / of_int world_size,
        fit_learning_rate = learning_rate a,
        fit_warmup_steps = WARMUP_STEPS a,
        fit_verbose = True,
        fit_report_every = REPORT_EVERY,
        fit_clip_grad_norm = False,
        fit_local_rank = local_rank,
        fit_save_every = (if rank' \<notin> {- 1, 0} then - 1 else SAVE_EVERY),
        fit_world_size = world_size,
        fit_rank = rank'\<rparr>]\<rparr>)"
  using assms never_raisesD(1) [OF assms(1)]
  by (simp add: train_def Let_def andthen_def lift_def py_truediv_def call_returns del: insert_iff)

lemma save_and_predict_returns:
  assumes nr: "never_raises x"
  shows "\<exists>prediction.
     save_and_predict x a ext_sum_test w =
       (Inr (), w\<lparr>log := log w @
           [SaveModel (os_path_join (output_dir a) (model_filename a)),
            Predict (py_slice ext_sum_test 0 (TOP_N a)) 128,
            OpenW (os_path_join (output_dir a) (summary_filename a))]
           @ map (\<lambda>item. Write (os_path_join (output_dir a) (summary_filename a)) (item @ [CHR 0x0A]))
               prediction,
         files := (files w)(os_path_join (output_dir a) (summary_filename a) \<mapsto>
                     concat (map (\<lambda>item. item @ [CHR 0x0A]) prediction))\<rparr>) \<and>
     x_predict x (log w @ [SaveModel (os_path_join (output_dir a) (model_filename a)),
            Predict (py_slice ext_sum_test 0 (TOP_N a)) 128]) = Inr prediction"
proof -
  note R = never_raisesD [OF nr]
  have xr: "\<forall>h. x_raises x h = None" using R(1) by simp
  obtain prediction where pr:
    "x_predict x (log w @ [SaveModel (os_path_join (output_dir a) (model_filename a)),
            Predict (py_slice ext_sum_test 0 (TOP_N a)) 128]) = Inr prediction"
    using R(5) by blast
  have "save_and_predict x a ext_sum_test w =
       (Inr (), w\<lparr>log := log w @
           [SaveModel (os_path_join (output_dir a) (model_filename a)),
            Predict (py_slice ext_sum_test 0 (TOP_N a)) 128,
            OpenW (os_path_join (output_dir a) (summary_filename a))]
           @ map (\<lambda>item. Write (os_path_join (output_dir a) (summary_filename a)) (item @ [CHR 0x0A]))
               prediction,
         files := (files w)(os_path_join (output_dir a) (summary_filename a) \<mapsto>
                     concat (map (\<lambda>item. item @ [CHR 0x0A]) prediction))\<rparr>)"
    using pr R(1)
    by (simp add: save_and_predict_def andthen_def call_returns call_val_def
        write_list_to_file_returns [OF xr])
  with pr show ?thesis by blast
qed



lemma guarded_barrier_returns:
  assumes "never_raises x"
  shows "(if c then call x Barrier else ret ()) w =
           (Inr (), w\<lparr>log := log w @ (if c then [Barrier] else [])\<rparr>)"
  using never_raisesD(1) [OF assms] by (simp add: call_returns ret_def)

lemma train_raises:
  assumes "world_size = 0"
  shows "train x a local_rank rank' world_size ext_sum_train w = (Inl ZeroDivisionError, w)"
  using assms by (simp add: train_def Let_def andthen_def lift_def py_truediv_def)

text \<open>
  The whole run of a worker whose library calls all return: the log it leaves, the
  summary file, and where the data sets and the predictions come from.
\<close>

lemma worker_run:
  fixes a :: args and l n :: int
  defines "sfile \<equiv> os_path_join (output_dir a) (summary_filename a)"
  defines "H \<equiv> \<lambda>w. log w
          @ InitProcessGroup ''nccl'' (dist_url a) (node_count a * n) (rank a * n + l)
          # (if l \<notin> {- 1, 0} then [Barrier] else [])"
  defines "B \<equiv> (if l \<in> {- 1, 0} then [Barrier] else [])"
  defines "F \<equiv> \<lambda>ext_sum_train. Fit \<lparr>fit_train_dataset = ext_sum_train,
               fit_num_gpus = node_count a * n,
               fit_batch_size = batch_size a,
               fit_gradient_accumulation_steps = 1,
               fit_max_steps = MAX_STEPS a / of_int (node_count a * n),
               fit_learning_rate = learning_rate a,
               fit_warmup_steps = WARMUP_STEPS a,
               fit_verbose = True,
               fit_report_every = REPORT_EVERY,
               fit_clip_grad_norm = False,
               fit_local_rank = l,
               fit_save_every = (if rank a * n + l \<notin> {- 1, 0} then - 1 else SAVE_EVERY),
               fit_world_size = node_count a * n,
               fit_rank = rank a * n + l\<rparr>"
  defines "S \<equiv> \<lambda>ext_sum_test.
               [SaveModel (os_path_join (output_dir a) (model_filename a)),
                Predict (py_slice ext_sum_test 0 (TOP_N a)) 128]"
  assumes nr: "never_raises x"
  shows "\<exists>acq ext_sum_train ext_sum_test prediction.
     main_worker x l n s a w =
       (if node_count a * n = 0
        then (Inl ZeroDivisionError, w\<lparr>log := H w @ acq @ B\<rparr>)
        else (Inr (), w\<lparr>log := H w @ acq @ B @ [F ext_sum_train, Barrier]
          @ (if l \<in> {- 1, 0} \<and> rank a = 0 then
               S ext_sum_test @ OpenW sfile
               # map (\<lambda>item. Write sfile (item @ [CHR 0x0A])) prediction
             else [])
          @ [DestroyProcessGroup],
        files := (if l \<in> {- 1, 0} \<and> rank a = 0
                  then (files w)(sfile \<mapsto> concat (map (\<lambda>item. item @ [CHR 0x0A]) prediction))
                  else files w)\<rparr>)) \<and>
     (if train_file a = None \<or> test_file a = None then
        \<exists>train_dataset test_dataset.
          acq = [CNNDMSummarizationDataset (TOP_N a) (data_dir a),
                 Preprocess train_dataset ''greedy'', Preprocess test_dataset ''greedy''] \<and>
          x_dataset x (H w @ take 1 acq) = Inr (train_dataset, test_dataset) \<and>
          x_preprocess x (H w @ take 2 acq) = Inr ext_sum_train \<and>
          x_preprocess x (H w @ acq) = Inr ext_sum_test
      else
        acq = [TorchLoad (os_path_join (data_dir a) (the (train_file a))),
               TorchLoad (os_path_join (data_dir a) (the (test_file a)))] \<and>
        x_torch_load x (H w @ take 1 acq) = Inr ext_sum_train \<and>
        x_torch_load x (H w @ acq) = Inr ext_sum_test) \<and>
     x_predict x (H w @ acq @ B @ [F ext_sum_train, Barrier] @ S ext_sum_test) = Inr prediction"
proof -
  note R = never_raisesD [OF nr]
  define w1 where "w1 = w\<lparr>log := log w @ [InitProcessGroup ''nccl'' (dist_url a) (node_count a * n) (rank a * n + l)]\<rparr>"
  have s1: "call x (InitProcessGroup ''nccl'' (dist_url a) (node_count a * n) (rank a * n + l)) w = (Inr (), w1)"
    unfolding w1_def by (rule call_returns) (rule R(1))
  define w2 where "w2 = w1\<lparr>log := log w1 @ (if l \<notin> {- 1, 0} then [Barrier] else [])\<rparr>"
  have s2: "(if l \<notin> {- 1, 0} then call x Barrier else ret ()) w1 = (Inr (), w2)"
    unfolding w2_def by (rule guarded_barrier_returns [OF nr])
  have lw2: "log w2 = H w"
    unfolding w2_def w1_def H_def by simp
  obtain acq etrain etest where s3: "acquire_data x a w2 = (Inr (etrain, etest), w2\<lparr>log := log w2 @ acq\<rparr>)"
    and acq: "if train_file a = None \<or> test_file a = None then
        \<exists>train_dataset test_dataset.
          acq = [CNNDMSummarizationDataset (TOP_N a) (data_dir a),
                 Preprocess train_dataset ''greedy'', Preprocess test_dataset ''greedy''] \<and>
          x_dataset x (log w2 @ take 1 acq) = Inr (train_dataset, test_dataset) \<and>
          x_preprocess x (log w2 @ take 2 acq) = Inr etrain \<and>
          x_preprocess x (log w2 @ acq) = Inr etest
      else
        acq = [TorchLoad (os_path_join (data_dir a) (the (train_file a))),
               TorchLoad (os_path_join (data_dir a) (the (test_file a)))] \<and>
        x_torch_load x (log w2 @ take 1 acq) = Inr etrain \<and>
        x_torch_load x (log w2 @ acq) = Inr etest"
    using acquire_data_returns [OF nr, of a w2] by blast
  define w3 where "w3 = w2\<lparr>log := log w2 @ acq\<rparr>"
  define w4 where "w4 = w3\<lparr>log := log w3 @ B\<rparr>"
  have s4: "(if l \<in> {- 1, 0} then call x Barrier else ret ()) w3 = (Inr (), w4)"
    unfolding w4_def B_def by (rule guarded_barrier_returns [OF nr])
  have lw4: "log w4 = H w @ acq @ B"
    unfolding w4_def w3_def by (simp add: lw2)
  have w4: "w4 = w\<lparr>log := H w @ acq @ B\<rparr>"
    unfolding w4_def w3_def w2_def w1_def H_def by simp
  define w5 where "w5 = w4\<lparr>log := log w4 @ [F etrain]\<rparr>"
  define w6 where "w6 = w5\<lparr>log := log w5 @ [Barrier]\<rparr>"
  have lw6: "log w6 = H w @ acq @ B @ [F etrain, Barrier]"
    unfolding w6_def w5_def by (simp add: lw4)
  obtain prediction where s7': "save_and_predict x a etest w6 =
       (Inr (), w6\<lparr>log := log w6 @
           [SaveModel (os_path_join (output_dir a) (model_filename a)),
            Predict (py_slice etest 0 (TOP_N a)) 128,
            OpenW sfile]
           @ map (\<lambda>item. Write sfile (item @ [CHR 0x0A])) prediction,
         files := (files w6)(sfile \<mapsto> concat (map (\<lambda>item. item @ [CHR 0x0A]) prediction))\<rparr>)"
    and pr: "x_predict x (log w6 @ S etest) = Inr prediction"
    using save_and_predict_returns [OF nr, of a etest w6] unfolding sfile_def S_def by blast
  have links: "(if train_file a = None \<or> test_file a = None then
        \<exists>train_dataset test_dataset.
          acq = [CNNDMSummarizationDataset (TOP_N a) (data_dir a),
                 Preprocess train_dataset ''greedy'', Preprocess test_dataset ''greedy''] \<and>
          x_dataset x (H w @ take 1 acq) = Inr (train_dataset, test_dataset) \<and>
          x_preprocess x (H w @ take 2 acq) = Inr etrain \<and>
          x_preprocess x (H w @ acq) = Inr etest
      else
        acq = [TorchLoad (os_path_join (data_dir a) (the (train_file a))),
               TorchLoad (os_path_join (data_dir a) (the (test_file a)))] \<and>
        x_torch_load x (H w @ take 1 acq) = Inr etrain \<and>
        x_torch_load x (H w @ acq) = Inr etest) \<and>
     x_predict x (H w @ acq @ B @ [F etrain, Barrier] @ S etest) = Inr prediction"
    using acq pr unfolding lw2 lw6 by simp
  show ?thesis
  proof (cases "node_count a * n = 0")
    case True
    have s5: "train x a l (rank a * n + l) (node_count a * n) etrain w4 = (Inl ZeroDivisionError, w4)"
      by (rule train_raises [OF True])
    have "main_worker x l n s a w = (Inl ZeroDivisionError, w4)"
      unfolding main_worker_def Let_def
      by (simp only: andthen_def s1 s2 s3 s4 s5 prod.case sum.case w3_def [symmetric])
    then have "main_worker x l n s a w =
       (if node_count a * n = 0
        then (Inl ZeroDivisionError, w\<lparr>log := H w @ acq @ B\<rparr>)
        else (Inr (), w\<lparr>log := H w @ acq @ B @ [F etrain, Barrier]
          @ (if l \<in> {- 1, 0} \<and> rank a = 0 then
               S etest @ OpenW sfile
               # map (\<lambda>item. Write sfile (item @ [CHR 0x0A])) prediction
             else [])
          @ [DestroyProcessGroup],
        files := (if l \<in> {- 1, 0} \<and> rank a = 0
                  then (files w)(sfile \<mapsto> concat (map (\<lambda>item. item @ [CHR 0x0A]) prediction))
                  else files w)\<rparr>))"
      unfolding w4 by (simp only: True if_True simp_thms)
    with links show ?thesis
      by (intro exI [of _ acq] exI [of _ etrain] exI [of _ etest] exI [of _ prediction])
         (rule conjI; assumption)
  next
    case False
    have s5: "train x a l (rank a * n + l) (node_count a * n) etrain w4 = (Inr (), w5)"
      unfolding w5_def F_def by (rule train_returns [OF nr False])
    have s6: "call x Barrier w5 = (Inr (), w6)"
      unfolding w6_def by (rule call_returns) (rule R(1))
    define w7 where "w7 = (if l \<in> {- 1, 0} \<and> rank a = 0 then
         w6\<lparr>log := log w6 @
           [SaveModel (os_path_join (output_dir a) (model_filename a)),
            Predict (py_slice etest 0 (TOP_N a)) 128,
            OpenW sfile]
           @ map (\<lambda>item. Write sfile (item @ [CHR 0x0A])) prediction,
         files := (files w6)(sfile \<mapsto> concat (map (\<lambda>item. item @ [CHR 0x0A]) prediction))\<rparr>
       else w6)"
    have s7: "(if l \<in> {- 1, 0} \<and> rank a = 0 then save_and_predict x a etest else ret ()) w6 = (Inr (), w7)"
      unfolding w7_def using s7' by (simp add: ret_def del: insert_iff)
    have s8: "cleanup x w7 = (Inr (), w7\<lparr>log := log w7 @ [DestroyProcessGroup]\<rparr>)"
      unfolding cleanup_def by (rule call_returns) (rule R(1))
    have run: "main_worker x l n s a w = (Inr (), w7\<lparr>log := log w7 @ [DestroyProcessGroup]\<rparr>)"
      unfolding main_worker_def Let_def
      by (simp only: andthen_def s1 s2 s3 s4 s5 s6 s7 s8 prod.case sum.case w3_def [symmetric])
    have fin: "w7\<lparr>log := log w7 @ [DestroyProcessGroup]\<rparr> =
       w\<lparr>log := H w @ acq @ B @ [F etrain, Barrier]
          @ (if l \<in> {- 1, 0} \<and> rank a = 0 then
               S etest @ OpenW sfile
               # map (\<lambda>item. Write sfile (item @ [CHR 0x0A])) prediction
             else [])
          @ [DestroyProcessGroup],
        files := (if l \<in> {- 1, 0} \<and> rank a = 0
                  then (files w)(sfile \<mapsto> concat (map (\<lambda>item. item @ [CHR 0x0A]) prediction))
                  else files w)\<rparr>"
      unfolding w7_def w6_def w5_def w4 S_def
      by (simp del: insert_iff)
    from run have "main_worker x l n s a w =
       (if node_count a * n = 0
        then (Inl ZeroDivisionError, w\<lparr>log := H w @ acq @ B\<rparr>)
        else (Inr (), w\<lparr>log := H w @ acq @ B @ [F etrain, Barrier]
          @ (if l \<in> {- 1, 0} \<and> rank a = 0 then
               S etest @ OpenW sfile
               # map (\<lambda>item. Write sfile (item @ [CHR 0x0A])) prediction
             else [])
          @ [DestroyProcessGroup],
        files := (if l \<in> {- 1, 0} \<and> rank a = 0
                  then (files w)(sfile \<mapsto> concat (map (\<lambda>item. item @ [CHR 0x0A]) prediction))
                  else files w)\<rparr>))"
      unfolding fin by (simp only: False if_False simp_thms)
    with links show ?thesis
      by (intro exI [of _ acq] exI [of _ etrain] exI [of _ etest] exI [of _ prediction])
         (rule conjI; assumption)
  qed
qed

lemma worker_run_log:
  assumes "never_raises x" and "log w = []"
  shows "\<exists>acq ext_sum_train ext_sum_test prediction.
     main_worker x l n s a w =
       (if node_count a * n = 0
        then (Inl ZeroDivisionError,
              w\<lparr>log := worker_head a l n @ acq @ (if l \<in> {- 1, 0} then [Barrier] else [])\<rparr>)
        else (Inr (),
              w\<lparr>log := worker_log a l n acq ext_sum_train ext_sum_test prediction,
                files := (if l \<in> {- 1, 0} \<and> rank a = 0
                          then (files w)(os_path_join (output_dir a) (summary_filename a)
                                          \<mapsto> summary_text prediction)
                          else files w)\<rparr>)) \<and>
     acquired x a (worker_head a l n) acq ext_sum_train ext_sum_test \<and>
     x_predict x (worker_head a l n @ acq @ (if l \<in> {- 1, 0} then [Barrier] else [])
        @ [fit_event a l n ext_sum_train, Barrier]
        @ save_predict_events a ext_sum_test) = Inr prediction"
  unfolding worker_log_def worker_head_def fit_event_def rank0_events_def summary_text_def
    acquired_def save_predict_events_def
  by (rule worker_run [OF assms(1), where a = a and n = n and l = l and s = s and w = w,
        unfolded assms(2) append_Nil])

subsection \<open>Exceptions are never caught\<close>


lemma stops_at_raise_Nil: "stops_at_raise x h [] r"
  by (simp add: stops_at_raise_def)

lemma stops_at_raise_append:
  assumes 1: "stops_at_raise x h new1 (Inr v :: py_error + 'a)"
    and 2: "stops_at_raise x (h @ new1) new2 (r :: py_error + 'b)"
  shows "stops_at_raise x h (new1 @ new2) r"
  unfolding stops_at_raise_def
proof (intro allI impI)
  fix p t e
  assume A: "new1 @ new2 = p @ t \<and> p \<noteq> [] \<and> call_outcome x (h @ p) = Some e"
  then obtain u where "new1 = p @ u \<and> u @ new2 = t \<or> new1 @ u = p \<and> new2 = u @ t"
    by (auto simp: append_eq_append_conv2)
  then show "t = [] \<and> r = Inl e"
  proof
    assume "new1 = p @ u \<and> u @ new2 = t"
    with A 1 show ?thesis unfolding stops_at_raise_def by blast
  next
    assume B: "new1 @ u = p \<and> new2 = u @ t"
    show ?thesis
    proof (cases "u = []")
      case True
      with A B have "new1 = p @ [] \<and> p \<noteq> [] \<and> call_outcome x (h @ p) = Some e" by simp
      with 1 have "Inr v = (Inl e :: py_error + 'a)"
        unfolding stops_at_raise_def by blast
      then show ?thesis by simp
    next
      case False
      from A B have "call_outcome x ((h @ new1) @ u) = Some e" by auto
      with B False 2 show ?thesis unfolding stops_at_raise_def by blast
    qed
  qed
qed

lemma obeysE:
  assumes "obeys x final m"
  obtains new where "log (snd (m w)) = log w @ new"
    and "DestroyProcessGroup \<notin> set (if final then butlast new else new)"
    and "stops_at_raise x (log w) new (fst (m w))"
  using assms unfolding obeys_def by blast

lemma obeys_weaken:
  assumes "obeys x False m"
  shows "obeys x final m"
  unfolding obeys_def
proof
  fix w
  from assms obtain new where "log (snd (m w)) = log w @ new"
    and "DestroyProcessGroup \<notin> set new"
    and "stops_at_raise x (log w) new (fst (m w))"
    by (rule obeysE [where w = w]) simp
  then show "\<exists>new. log (snd (m w)) = log w @ new
        \<and> DestroyProcessGroup \<notin> set (if final then butlast new else new)
        \<and> stops_at_raise x (log w) new (fst (m w))"
    by (intro exI [of _ new]) (auto dest: in_set_butlastD)
qed

lemma obeys_ret: "obeys x False (ret v)"
  by (simp add: obeys_def ret_def stops_at_raise_Nil)

lemma obeys_lift: "obeys x False (lift r)"
  by (simp add: obeys_def lift_def stops_at_raise_Nil)

lemma obeys_pure: "obeys x False (\<lambda>w. (r, w\<lparr>files := g w\<rparr>))"
  by (simp add: obeys_def stops_at_raise_Nil)

lemma obeys_if: "obeys x b m1 \<Longrightarrow> obeys x b m2 \<Longrightarrow> obeys x b (if c then m1 else m2)"
  by simp

lemma stops_at_raise_single:
  "stops_at_raise x h [ev] r \<longleftrightarrow> (\<forall>e. call_outcome x (h @ [ev]) = Some e \<longrightarrow> r = Inl e)"
  unfolding stops_at_raise_def
  by (auto simp: Cons_eq_append_conv)

lemma call_outcome_plain:
  "returns_nothing ev \<Longrightarrow> call_outcome x (h @ [ev]) = x_raises x (h @ [ev])"
  by (cases ev) (simp_all add: call_outcome_def)

lemma obeys_call:
  assumes "returns_nothing ev" and "ev \<noteq> DestroyProcessGroup"
  shows "obeys x False (call x ev)"
  unfolding obeys_def
proof
  fix w
  show "\<exists>new. log (snd (call x ev w)) = log w @ new
        \<and> DestroyProcessGroup \<notin> set (if False then butlast new else new)
        \<and> stops_at_raise x (log w) new (fst (call x ev w))"
    using assms
    by (intro exI [of _ "[ev]"])
       (auto simp: call_def Let_def stops_at_raise_single call_outcome_plain split: option.splits)
qed

lemma obeys_cleanup: "obeys x True (cleanup x)"
  unfolding obeys_def cleanup_def
proof
  fix w
  show "\<exists>new. log (snd (call x DestroyProcessGroup w)) = log w @ new
        \<and> DestroyProcessGroup \<notin> set (if True then butlast new else new)
        \<and> stops_at_raise x (log w) new (fst (call x DestroyProcessGroup w))"
    by (intro exI [of _ "[DestroyProcessGroup]"])
       (auto simp: call_def Let_def stops_at_raise_single call_outcome_plain split: option.splits)
qed

lemma obeys_call_val:
  assumes "\<And>h. call_outcome x (h @ [ev]) = (case g (h @ [ev]) of Inl e \<Rightarrow> Some e | Inr _ \<Rightarrow> None)"
    and "ev \<noteq> DestroyProcessGroup"
  shows "obeys x False (call_val g ev)"
  unfolding obeys_def
proof
  fix w
  show "\<exists>new. log (snd (call_val g ev w)) = log w @ new
        \<and> DestroyProcessGroup \<notin> set (if False then butlast new else new)
        \<and> stops_at_raise x (log w) new (fst (call_val g ev w))"
    using assms
    by (intro exI [of _ "[ev]"])
       (auto simp: call_val_def Let_def stops_at_raise_single split: sum.splits)
qed

lemma obeys_andthen:
  assumes m: "obeys x False m" and f: "\<And>v. obeys x final (f v)"
  shows "obeys x final (andthen m f)"
  unfolding obeys_def
proof
  fix w
  obtain new1 where 1: "log (snd (m w)) = log w @ new1" "DestroyProcessGroup \<notin> set new1"
    "stops_at_raise x (log w) new1 (fst (m w))"
    using m by (rule obeysE [where w = w]) simp
  show "\<exists>new. log (snd (andthen m f w)) = log w @ new
        \<and> DestroyProcessGroup \<notin> set (if final then butlast new else new)
        \<and> stops_at_raise x (log w) new (fst (andthen m f w))"
  proof (cases "fst (m w)")
    case (Inl e)
    then have "andthen m f w = (Inl e, snd (m w))"
      by (cases "m w") (simp add: andthen_def)
    moreover have "stops_at_raise x (log w) new1 (Inl e :: py_error + 'b)"
      using 1(3) Inl unfolding stops_at_raise_def by auto
    ultimately show ?thesis using 1
      by (intro exI [of _ new1]) (auto dest: in_set_butlastD)
  next
    case (Inr v)
    then have r: "andthen m f w = f v (snd (m w))"
      by (cases "m w") (simp add: andthen_def)
    obtain new2 where 2: "log (snd (f v (snd (m w)))) = log (snd (m w)) @ new2"
      "DestroyProcessGroup \<notin> set (if final then butlast new2 else new2)"
      "stops_at_raise x (log (snd (m w))) new2 (fst (f v (snd (m w))))"
      using f [of v] by (rule obeysE [where w = "snd (m w)"])
    have "stops_at_raise x (log w) (new1 @ new2) (fst (f v (snd (m w))))"
      using 1(3) 2(3) unfolding Inr 1(1) by (rule stops_at_raise_append)
    moreover have "DestroyProcessGroup \<notin> set (if final then butlast (new1 @ new2) else new1 @ new2)"
      using 1(2) 2(2) by (auto simp: butlast_append dest: in_set_butlastD)
    ultimately show ?thesis using 1(1) 2(1) r
      by (intro exI [of _ "new1 @ new2"]) simp
  qed
qed



lemma obeys_case_prod:
  "(\<And>a b. obeys x final (f a b)) \<Longrightarrow> obeys x final (case v of (a, b) \<Rightarrow> f a b)"
  by (cases v) simp

lemma obeys_filehandle_write: "obeys x False (filehandle_write x filename s)"
  unfolding filehandle_write_def
  by (intro obeys_andthen obeys_call obeys_pure) simp_all

lemma obeys_open_w: "obeys x False (open_w x filename)"
  unfolding open_w_def
  by (intro obeys_andthen obeys_call obeys_pure) simp_all

lemma obeys_write_items: "obeys x False (write_items x filename list_items)"
  by (induction list_items) (auto intro!: obeys_ret obeys_andthen obeys_filehandle_write)

lemma obeys_write_list_to_file: "obeys x False (write_list_to_file x list_items filename)"
  unfolding write_list_to_file_def
  by (intro obeys_andthen obeys_open_w obeys_write_items)

lemma obeys_acquire_data: "obeys x False (acquire_data x a)"
  unfolding acquire_data_def
  by (intro obeys_if obeys_andthen obeys_case_prod obeys_call_val obeys_ret)
     (simp_all add: call_outcome_def)

lemma obeys_train: "obeys x False (train x a local_rank rank' world_size ext_sum_train)"
  unfolding train_def Let_def
  by (intro obeys_andthen obeys_lift obeys_call) simp_all

lemma obeys_save_and_predict: "obeys x False (save_and_predict x a ext_sum_test)"
  unfolding save_and_predict_def
  by (intro obeys_andthen obeys_call obeys_call_val obeys_write_list_to_file)
     (simp_all add: call_outcome_def)





subsection \<open>Reading a log, and the sample inputs\<close>

lemma fit_calls_append: "fit_calls (es @ es') = fit_calls es @ fit_calls es'"
  by (induction es rule: fit_calls.induct) simp_all

lemma fit_calls_writes: "fit_calls (map (\<lambda>item. Write f (g item)) items) = []"
  by (induction items) simp_all

lemma never_raises_quiet_ext: "never_raises quiet_ext"
  by (simp add: never_raises_def quiet_ext_def)

lemma py_lower_false: "py_lower ''false'' = ''false''"
  by (simp add: py_lower_def lower_char_def)

lemma py_lower_true: "py_lower ''true'' = ''true''"
  by (simp add: py_lower_def lower_char_def)

lemma sample_constants:
  "node_count default_args = 1" "node_count quick_args = 1" "rank default_args = 0"
  "MAX_STEPS default_args = 10000" "WARMUP_STEPS default_args = 5000"
  "MAX_STEPS quick_args = 10" "WARMUP_STEPS quick_args = 500"
  "TOP_N default_args = - 1" "TOP_N quick_args = 10"
  "log fresh_world = []"
  by (simp_all add: default_args_def quick_args_def MAX_STEPS_def WARMUP_STEPS_def TOP_N_def
      py_lower_false py_lower_true fresh_world_def)

text \<open>The one \<^verbatim>\<open>fit\<close> call of an error-free worker, with all its arguments.\<close>

lemma worker_fit_calls:
  assumes "never_raises x" and "node_count a * n \<noteq> 0" and "log w = []"
  shows "\<exists>ext_sum_train. fit_calls (log (snd (main_worker x l n s a w))) =
     [\<lparr>fit_train_dataset = ext_sum_train,
       fit_num_gpus = node_count a * n,
       fit_batch_size = batch_size a,
       fit_gradient_accumulation_steps = 1,
       fit_max_steps = MAX_STEPS a / of_int (node_count a * n),
       fit_learning_rate = learning_rate a,
       fit_warmup_steps = WARMUP_STEPS a,
       fit_verbose = True,
       fit_report_every = REPORT_EVERY,
       fit_clip_grad_norm = False,
       fit_local_rank = l,
       fit_save_every = (if rank a * n + l \<notin> {- 1, 0} then - 1 else SAVE_EVERY),
       fit_world_size = node_count a * n,
       fit_rank = rank a * n + l\<rparr>]"
  using worker_run [OF assms(1), where a = a and n = n and l = l and s = s and w = w] assms(2,3)
  by (auto simp: fit_calls_append fit_calls_writes split: if_splits simp del: insert_iff)

subsection \<open>Further facts about logs, slices and numerals\<close>

lemma remdups_adj_replicate_same:
  "remdups_adj (y # replicate k y @ ys) = remdups_adj (y # ys)"
  by (induction k) simp_all

lemma stage_of_writes:
  "map (stage_of \<circ> (\<lambda>item. Write f (g item))) items = replicate (length items) Finalizing"
  by (induction items) simp_all

lemma count_list_writes: "count_list (map (\<lambda>item. Write f (g item)) items) Barrier = 0"
  by (induction items) simp_all

lemma acquired_cases:
  assumes "acquired x a h acq ext_sum_train ext_sum_test"
  obtains train_dataset test_dataset
    where "train_file a = None \<or> test_file a = None"
      and "acq = [CNNDMSummarizationDataset (TOP_N a) (data_dir a),
                  Preprocess train_dataset ''greedy'', Preprocess test_dataset ''greedy'']"
      and "x_dataset x (h @ [CNNDMSummarizationDataset (TOP_N a) (data_dir a)])
             = Inr (train_dataset, test_dataset)"
      and "x_preprocess x (h @ [CNNDMSummarizationDataset (TOP_N a) (data_dir a),
                  Preprocess train_dataset ''greedy'']) = Inr ext_sum_train"
      and "x_preprocess x (h @ acq) = Inr ext_sum_test"
  | trf tef
    where "train_file a = Some trf" and "test_file a = Some tef"
      and "acq = [TorchLoad (os_path_join (data_dir a) trf),
                  TorchLoad (os_path_join (data_dir a) tef)]"
      and "x_torch_load x (h @ [TorchLoad (os_path_join (data_dir a) trf)]) = Inr ext_sum_train"
      and "x_torch_load x (h @ acq) = Inr ext_sum_test"
  using assms unfolding acquired_def
  by (auto split: if_splits)

lemma worker_log_run:
  assumes "never_raises x" and "node_count a * n \<noteq> 0" and "log w = []"
  obtains acq ext_sum_train ext_sum_test prediction
  where "fst (main_worker x l n s a w) = Inr ()"
    and "log (snd (main_worker x l n s a w)) =
           worker_log a l n acq ext_sum_train ext_sum_test prediction"
    and "files (snd (main_worker x l n s a w)) =
           (if l \<in> {- 1, 0} \<and> rank a = 0
            then (files w)(os_path_join (output_dir a) (summary_filename a)
                            \<mapsto> summary_text prediction)
            else files w)"
    and "acquired x a (worker_head a l n) acq ext_sum_train ext_sum_test"
    and "x_predict x (worker_head a l n @ acq @ (if l \<in> {- 1, 0} then [Barrier] else [])
        @ [fit_event a l n ext_sum_train, Barrier]
        @ save_predict_events a ext_sum_test) = Inr prediction"
proof -
  from worker_run_log [OF assms(1,3), of l n s a] assms(2)
  obtain acq ext_sum_train ext_sum_test prediction where
    "main_worker x l n s a w = (Inr (),
              w\<lparr>log := worker_log a l n acq ext_sum_train ext_sum_test prediction,
                files := (if l \<in> {- 1, 0} \<and> rank a = 0
                          then (files w)(os_path_join (output_dir a) (summary_filename a)
                                          \<mapsto> summary_text prediction)
                          else files w)\<rparr>)"
    and "acquired x a (worker_head a l n) acq ext_sum_train ext_sum_test"
    and "x_predict x (worker_head a l n @ acq @ (if l \<in> {- 1, 0} then [Barrier] else [])
        @ [fit_event a l n ext_sum_train, Barrier]
        @ save_predict_events a ext_sum_test) = Inr prediction"
    by (auto simp del: insert_iff)
  then show ?thesis
    by (intro that [of acq ext_sum_train ext_sum_test prediction]) simp_all
qed

lemmas worker_log_defs =
  worker_log_def worker_head_def fit_event_def rank0_events_def save_predict_events_def

lemma predict_calls_append: "predict_calls (es @ es') = predict_calls es @ predict_calls es'"
  by (induction es rule: predict_calls.induct) simp_all

lemma predict_calls_writes: "predict_calls (map (\<lambda>item. Write f (g item)) items) = []"
  by (induction items) simp_all


lemma through_acquisition_append:
  assumes "acquires e" and "\<forall>e' \<in> set es'. \<not> acquires e'"
  shows "through_acquisition (es @ e # es') = es @ [e]"
  using assms by (simp add: through_acquisition_def dropWhile_append)

text \<open>The part of a worker's log that ends with data acquisition, whatever the world size.\<close>

lemma worker_acquisition:
  assumes "never_raises x" and "log w = []"
  obtains acq ext_sum_train ext_sum_test rest
  where "log (snd (main_worker x l n s a w)) = worker_head a l n @ acq @ rest"
    and "acquired x a (worker_head a l n) acq ext_sum_train ext_sum_test"
    and "\<forall>e \<in> set rest. \<not> acquires e \<and> (\<forall>p. e \<noteq> TorchLoad p)"
proof -
  from worker_run_log [OF assms, of l n s a]
  obtain acq ext_sum_train ext_sum_test prediction where
    run: "main_worker x l n s a w =
       (if node_count a * n = 0
        then (Inl ZeroDivisionError,
              w\<lparr>log := worker_head a l n @ acq @ (if l \<in> {- 1, 0} then [Barrier] else [])\<rparr>)
        else (Inr (),
              w\<lparr>log := worker_log a l n acq ext_sum_train ext_sum_test prediction,
                files := (if l \<in> {- 1, 0} \<and> rank a = 0
                          then (files w)(os_path_join (output_dir a) (summary_filename a)
                                          \<mapsto> summary_text prediction)
                          else files w)\<rparr>))"
    and A: "acquired x a (worker_head a l n) acq ext_sum_train ext_sum_test"
    by blast
  show ?thesis
  proof (cases "node_count a * n = 0")
    case True
    let ?rest = "if l \<in> {- 1, 0} then [Barrier] else []"
    from run True have L: "log (snd (main_worker x l n s a w)) = worker_head a l n @ acq @ ?rest"
      by (simp del: insert_iff)
    have R: "\<forall>e \<in> set ?rest. \<not> acquires e \<and> (\<forall>p. e \<noteq> TorchLoad p)"
      by (simp del: insert_iff)
    from L A R show ?thesis by (rule that)
  next
    case False
    let ?rest = "(if l \<in> {- 1, 0} then [Barrier] else [])
             @ [fit_event a l n ext_sum_train, Barrier]
             @ (if l \<in> {- 1, 0} \<and> rank a = 0 then rank0_events a ext_sum_test prediction else [])
             @ [DestroyProcessGroup]"
    from run False have L: "log (snd (main_worker x l n s a w)) = worker_head a l n @ acq @ ?rest"
      by (simp add: worker_log_def del: insert_iff)
    have R: "\<forall>e \<in> set ?rest. \<not> acquires e \<and> (\<forall>p. e \<noteq> TorchLoad p)"
      by (auto simp: fit_event_def rank0_events_def save_predict_events_def simp del: insert_iff)
    from L A R show ?thesis by (rule that)
  qed
qed

lemma quiet_ext_returns:
  "x_raises quiet_ext h = None"
  "x_dataset quiet_ext h = Inr ([RawDoc 0, RawDoc 1], [RawDoc 2, RawDoc 3, RawDoc 4])"
  "x_preprocess quiet_ext h = Inr [Sample 0, Sample 1, Sample 2]"
  "x_torch_load quiet_ext h = Inr [Sample 0, Sample 1, Sample 2]"
  "x_predict quiet_ext h = Inr [''first summary'', ''second summary'']"
  by (simp_all add: quiet_ext_def)

lemma sample_files:
  "train_file default_args = None" "test_file default_args = None"
  "train_file file_args = Some ''train.pt''" "test_file file_args = Some ''test.pt''"
  "data_dir default_args = ''./''" "data_dir file_args = ''./''"
  "os_path_join ''./'' ''train.pt'' = ''./train.pt''"
  "os_path_join ''./'' ''test.pt'' = ''./test.pt''"
  by (simp_all add: file_args_def default_args_def os_path_join_def)


lemma py_slice_all_but_last: "py_slice xs 0 (- 1) = butlast xs"
proof -
  have "nat (max (int (length xs) - 1) 0) = length xs - 1" by linarith
  then show ?thesis
    by (simp add: py_slice_def Let_def butlast_conv_take)
qed

lemma py_slice_first_ten: "py_slice xs 0 10 = take 10 xs"
  by (simp add: py_slice_def Let_def min_def)

lemma line_count_append: "line_count (s @ t) = line_count s + line_count t"
  by (induction s) (simp_all add: line_count_def)

lemma line_count_no_newline: "CHR 0x0A \<notin> set s \<Longrightarrow> line_count s = 0"
  by (induction s) (auto simp: line_count_def)

lemma line_count_summary_text:
  "\<forall>item \<in> set list_items. CHR 0x0A \<notin> set item \<Longrightarrow>
     line_count (summary_text list_items) = length list_items"
  by (induction list_items)
     (simp_all add: summary_text_def line_count_append line_count_no_newline, simp add: line_count_def)

lemma of_char_digit_char: "d < 10 \<Longrightarrow> of_char (digit_char d) = 48 + d"
  by (simp add: digit_char_def)

lemma decimal_value_snoc:
  "decimal_value (s @ [c]) = 10 * decimal_value s + (of_char c - 48)"
  by (simp add: decimal_value_def)

lemma decimal_value_str_nat: "decimal_value (str_nat n) = n"
proof (induction n rule: str_nat.induct)
  case (1 n)
  show ?case
  proof (cases "n < 10")
    case True
    then show ?thesis
      by (subst str_nat.simps) (simp add: decimal_value_def of_char_digit_char)
  next
    case False
    with 1 have "decimal_value (str_nat (n div 10)) = n div 10" by simp
    with False show ?thesis
      by (subst str_nat.simps) (simp add: decimal_value_snoc of_char_digit_char)
  qed
qed

lemma is_digit_digit_char: "d < 10 \<Longrightarrow> is_digit (digit_char d)"
  by (simp add: is_digit_def of_char_digit_char)

lemma str_nat_digits: "c \<in> set (str_nat n) \<Longrightarrow> is_digit c"
proof (induction n rule: str_nat.induct)
  case (1 n)
  show ?case
  proof (cases "n < 10")
    case True
    with "1.prems" show ?thesis
      by (subst (asm) str_nat.simps) (simp add: is_digit_digit_char)
  next
    case False
    with "1.prems" have "c \<in> set (str_nat (n div 10)) \<or> c = digit_char (n mod 10)"
      by (subst (asm) str_nat.simps) auto
    with 1 False show ?thesis
      using is_digit_digit_char [of "n mod 10"] by auto
  qed
qed

lemma digit_char_not_zero:
  assumes "d \<noteq> 0" and "d < 10"
  shows "digit_char d \<noteq> CHR ''0''"
proof
  assume "digit_char d = CHR ''0''"
  then have "(of_char (digit_char d) :: nat) = of_char (CHR ''0'')" by simp
  with assms show False by (simp add: of_char_digit_char)
qed

lemma str_nat_not_empty: "str_nat n \<noteq> []"
  by (subst str_nat.simps) simp

lemma str_nat_no_leading_zero: "n \<noteq> 0 \<Longrightarrow> take 1 (str_nat n) \<noteq> ''0''"
proof (induction n rule: str_nat.induct)
  case (1 n)
  show ?case
  proof (cases "n < 10")
    case True
    with "1.prems" show ?thesis
      by (subst str_nat.simps) (simp add: digit_char_not_zero)
  next
    case False
    then have "n div 10 \<noteq> 0" by simp
    with 1 False have ih: "take 1 (str_nat (n div 10)) \<noteq> ''0''" by simp
    have "str_nat (n div 10) \<noteq> []" by (rule str_nat_not_empty)
    with ih False show ?thesis
      by (subst str_nat.simps) (cases "str_nat (n div 10)", simp_all)
  qed
qed

lemma first_call_logged:
  assumes "\<And>v. obeys x final (f v)"
  shows "\<exists>rest. log (snd (andthen (call x ev) f w)) = log w @ ev # rest"
proof (cases "x_raises x (log w @ [ev])")
  case None
  then have r: "andthen (call x ev) f w = f () (w\<lparr>log := log w @ [ev]\<rparr>)"
    by (simp add: andthen_def call_def Let_def)
  from assms [of "()"] obtain new
    where "log (snd (f () (w\<lparr>log := log w @ [ev]\<rparr>))) = log (w\<lparr>log := log w @ [ev]\<rparr>) @ new"
    by (rule obeysE)
  with r show ?thesis by simp
next
  case (Some e)
  then have "andthen (call x ev) f w = (Inl e, w\<lparr>log := log w @ [ev]\<rparr>)"
    by (simp add: andthen_def call_def Let_def)
  then show ?thesis by simp
qed

lemma worker_first_call:
  "\<exists>rest. log (snd (main_worker x l n s a w)) =
     log w @ InitProcessGroup ''nccl'' (dist_url a) (node_count a * n) (rank a * n + l) # rest"
  unfolding main_worker_def Let_def
  by (rule first_call_logged [where final = True])
     (intro obeys_andthen obeys_case_prod obeys_if obeys_call obeys_ret obeys_acquire_data
        obeys_train obeys_save_and_predict obeys_cleanup obeys_weaken [of x "ret ()"],
      simp_all)

lemma main_returns:
  assumes "never_raises x"
  shows "main x xs device_count a w =
     (Inr (map (\<lambda>local_rank. main_worker (xs local_rank) local_rank (int device_count)
                  (ExtractiveSummarizer (ExtSumProcessor (model_name a)) (model_name a)
                     (encoder a) (max_pos_length a) (cache_dir a)) a
                  \<lparr>log = [], files = files w\<rparr>)
             [0..int device_count - 1]),
      w\<lparr>log := log w @
         [MakeDirs (output_dir a) True, MakeDirs (cache_dir a) True,
          ExtSumProcessorInit (model_name a),
          ExtractiveSummarizerInit (ExtSumProcessor (model_name a)) (model_name a)
            (encoder a) (max_pos_length a) (cache_dir a),
          Spawn (int device_count)]\<rparr>)"
  using never_raisesD(1) [OF assms]
  by (simp add: main_def mp_spawn_def Let_def andthen_def call_def)

lemma nth_upto_nat: "i < k \<Longrightarrow> [0..int k - 1] ! i = int i"
  by (simp add: nth_upto)



section \<open>Properties of the launcher\<close>

subsection \<open>Module import\<close>

text \<open>
  C9. Loading the module sets \<^verbatim>\<open>NCCL_IB_DISABLE\<close> to \<^verbatim>\<open>"0"\<close>, \<^verbatim>\<open>OMP_NUM_THREADS\<close> to the
  decimal numeral of the device count (digits only, no leading zero, denoting that
  count) and \<^verbatim>\<open>KMP_AFFINITY\<close> to \<^verbatim>\<open>"verbose"\<close>, and leaves every other variable as it
  was. The assignments are a function of the device count and the old environment
  alone: no command-line argument enters.
\<close>

theorem import_sets_environment:
  "module_environ device_count environ ''NCCL_IB_DISABLE'' = Some ''0''
   \<and> module_environ device_count environ ''OMP_NUM_THREADS'' = Some (py_str (int device_count))
   \<and> module_environ device_count environ ''KMP_AFFINITY'' = Some ''verbose''
   \<and> (\<forall>k. k \<notin> {''NCCL_IB_DISABLE'', ''OMP_NUM_THREADS'', ''KMP_AFFINITY''} \<longrightarrow>
         module_environ device_count environ k = environ k)
   \<and> decimal_value (py_str (int device_count)) = device_count
   \<and> (\<forall>c \<in> set (py_str (int device_count)). is_digit c)
   \<and> (device_count \<noteq> 0 \<longrightarrow> take 1 (py_str (int device_count)) \<noteq> ''0'')"
proof -
  have "py_str (int device_count) = str_nat device_count"
    by (simp add: py_str_def)
  then show ?thesis
    using str_nat_digits [of _ device_count] str_nat_no_leading_zero [of device_count]
    by (auto simp: module_environ_def decimal_value_str_nat)
qed

theorem import_sets_environment_witness:
  "module_environ 8 sample_environ ''OMP_NUM_THREADS'' = Some ''8''
   \<and> ''PATH'' \<notin> {''NCCL_IB_DISABLE'', ''OMP_NUM_THREADS'', ''KMP_AFFINITY''}
   \<and> module_environ 8 sample_environ ''PATH'' = Some ''/usr/bin''
   \<and> (8 :: nat) \<noteq> 0 \<and> take 1 (py_str (int 8)) \<noteq> ''0''
   \<and> is_digit (CHR ''8'')"
proof -
  have "py_str (int 8) = ''8''"
    by code_simp
  then show ?thesis
    using import_sets_environment [of 8 sample_environ]
    by (simp add: sample_environ_def)
qed


subsection \<open>Spawning and joining the process group\<close>

text \<open>
  C2. \<^verbatim>\<open>main\<close> calls \<^verbatim>\<open>mp.spawn\<close> with \<^verbatim>\<open>nprocs\<close> equal to the device count \<open>n\<close>, which
  runs one worker for each local rank \<open>l\<close> in \<open>0..n-1\<close>. The first call of each worker
  joins the process group with backend \<^verbatim>\<open>"nccl"\<close>, \<^verbatim>\<open>init_method = args.dist_url\<close>,
  \<^verbatim>\<open>world_size = node_count * n\<close> and \<^verbatim>\<open>rank = args.rank * n + l\<close>.
\<close>

theorem main_spawns_workers:
  assumes "never_raises x"
  shows "\<exists>runs.
     fst (main x xs device_count a w) = Inr runs
     \<and> last (log (snd (main x xs device_count a w))) = Spawn (int device_count)
     \<and> length runs = device_count
     \<and> (\<forall>l < device_count.
          runs ! l = main_worker (xs (int l)) (int l) (int device_count)
                       (ExtractiveSummarizer (ExtSumProcessor (model_name a)) (model_name a)
                          (encoder a) (max_pos_length a) (cache_dir a)) a
                       \<lparr>log = [], files = files w\<rparr>
          \<and> take 1 (log (snd (runs ! l))) =
              [InitProcessGroup ''nccl'' (dist_url a) (node_count a * int device_count)
                 (rank a * int device_count + int l)])"
proof -
  let ?s = "ExtractiveSummarizer (ExtSumProcessor (model_name a)) (model_name a)
              (encoder a) (max_pos_length a) (cache_dir a)"
  let ?run = "\<lambda>local_rank. main_worker (xs local_rank) local_rank (int device_count) ?s a
                \<lparr>log = [], files = files w\<rparr>"
  have first: "take 1 (log (snd (?run (int l)))) =
      [InitProcessGroup ''nccl'' (dist_url a) (node_count a * int device_count)
         (rank a * int device_count + int l)]" for l
    using worker_first_call [of "xs (int l)" "int l" "int device_count" ?s a
        "\<lparr>log = [], files = files w\<rparr>"]
    by auto
  show ?thesis
    apply (rule exI [of _ "map ?run [0..int device_count - 1]"])
    using first
    by (simp add: main_returns [OF assms] nth_upto_nat del: upto.simps)
qed

theorem main_spawns_workers_witness:
  "never_raises quiet_ext \<and> (1 :: nat) < 2
   \<and> length (projr (fst (main quiet_ext (\<lambda>l. quiet_ext) 2 default_args fresh_world))) = 2
   \<and> take 1 (log (snd (projr (fst (main quiet_ext (\<lambda>l. quiet_ext) 2 default_args fresh_world)) ! 1)))
     = [InitProcessGroup ''nccl'' ''tcp://127.0.0.1:29501'' 2 1]"
proof -
  from main_spawns_workers [OF never_raises_quiet_ext, of "\<lambda>l. quiet_ext" 2 default_args fresh_world]
  obtain runs where r: "fst (main quiet_ext (\<lambda>l. quiet_ext) 2 default_args fresh_world) = Inr runs"
    and len: "length runs = 2"
    and each: "\<forall>l < 2. take 1 (log (snd (runs ! l))) =
              [InitProcessGroup ''nccl'' (dist_url default_args) (node_count default_args * int 2)
                 (rank default_args * int 2 + int l)]"
    by blast
  from each [rule_format, of 1]
  have "take 1 (log (snd (runs ! 1))) = [InitProcessGroup ''nccl'' ''tcp://127.0.0.1:29501'' 2 1]"
    by (simp add: default_args_def)
  with r len show ?thesis
    by (simp add: never_raises_quiet_ext)
qed


subsection \<open>Barriers\<close>

text \<open>
  C3 (as amended). The worker has three barrier call sites, in this order: one before data
  acquisition, taken only when \<^verbatim>\<open>local_rank\<close> is not in \<open>{-1, 0}\<close>; one after data
  acquisition and before \<^verbatim>\<open>fit\<close>, taken only when \<^verbatim>\<open>local_rank\<close> is in \<open>{-1, 0}\<close>; one
  after \<^verbatim>\<open>fit\<close> and before the rank-0 block, taken by every worker. A worker whose
  library calls all return (world size not zero) therefore goes through exactly two
  barriers, not three.
\<close>

theorem barrier_stages:
  assumes "never_raises x" and "node_count a * n \<noteq> 0" and "log w = []"
  shows "remdups_adj (map stage_of (log (snd (main_worker x l n s a w)))) =
           [Joining] @ (if l \<notin> {- 1, 0} then [Synchronizing] else []) @ [Acquiring]
           @ (if l \<in> {- 1, 0} then [Synchronizing] else []) @ [Training, Synchronizing]
           @ (if l \<in> {- 1, 0} \<and> rank a = 0 then [Finalizing] else []) @ [Leaving]
       \<and> count_list (log (snd (main_worker x l n s a w))) Barrier = 2"
proof -
  from assms obtain acq ext_sum_train ext_sum_test prediction
    where L: "log (snd (main_worker x l n s a w)) =
           worker_log a l n acq ext_sum_train ext_sum_test prediction"
      and A: "acquired x a (worker_head a l n) acq ext_sum_train ext_sum_test"
    by (rule worker_log_run)
  from A show ?thesis
  proof (cases rule: acquired_cases)
    case (1 train_dataset test_dataset)
    then show ?thesis unfolding L
      by (simp add: worker_log_defs stage_of_writes count_list_writes remdups_adj_replicate_same)
  next
    case (2 trf tef)
    then show ?thesis unfolding L
      by (simp add: worker_log_defs stage_of_writes count_list_writes remdups_adj_replicate_same)
  qed
qed

theorem barrier_stages_witness:
  "never_raises quiet_ext \<and> node_count default_args * 2 \<noteq> 0 \<and> log fresh_world = []
   \<and> remdups_adj (map stage_of
        (log (snd (main_worker quiet_ext 1 2 sample_summarizer default_args fresh_world)))) =
      [Joining, Synchronizing, Acquiring, Training, Synchronizing, Leaving]"
  using barrier_stages [of quiet_ext default_args 2 fresh_world 1 sample_summarizer]
  by (simp add: never_raises_quiet_ext sample_constants)

text \<open>
  C3 as first stated has three barrier synchronizations in every worker execution. The
  single worker of a one-device run with the default arguments goes through two.
\<close>

theorem not_three_barriers:
  "count_list (log (snd (main_worker quiet_ext 0 1 sample_summarizer default_args fresh_world)))
     Barrier \<noteq> 3"
proof -
  obtain acq ext_sum_train ext_sum_test prediction
    where L: "log (snd (main_worker quiet_ext 0 1 sample_summarizer default_args fresh_world)) =
           worker_log default_args 0 1 acq ext_sum_train ext_sum_test prediction"
      and A: "acquired quiet_ext default_args (worker_head default_args 0 1) acq
                ext_sum_train ext_sum_test"
    by (rule worker_log_run [of quiet_ext default_args 1 fresh_world 0 sample_summarizer])
       (simp_all add: never_raises_quiet_ext sample_constants)
  from A show ?thesis
    by (cases rule: acquired_cases)
       (simp_all add: L worker_log_defs count_list_writes sample_constants)
qed


subsection \<open>Data acquisition\<close>

text \<open>
  C4. In a worker whose library calls return, the data sets are loaded with
  \<^verbatim>\<open>torch.load\<close> from \<^verbatim>\<open>data_dir/train_file\<close> and \<^verbatim>\<open>data_dir/test_file\<close> if and only
  if both file names are given; otherwise the raw data set is built with
  \<^verbatim>\<open>CNNDMSummarizationDataset\<close> and both of its halves go through \<^verbatim>\<open>preprocess\<close> with
  \<^verbatim>\<open>oracle_mode="greedy"\<close>. This does not depend on the world size.
\<close>

theorem data_acquisition:
  assumes "never_raises x" and "log w = []"
  shows "(\<forall>trf tef. train_file a = Some trf \<and> test_file a = Some tef \<longrightarrow>
            filter acquires (log (snd (main_worker x l n s a w))) =
              [TorchLoad (os_path_join (data_dir a) trf),
               TorchLoad (os_path_join (data_dir a) tef)])
       \<and> (train_file a = None \<or> test_file a = None \<longrightarrow>
            (\<exists>train_dataset test_dataset.
               filter acquires (log (snd (main_worker x l n s a w))) =
                 [CNNDMSummarizationDataset (TOP_N a) (data_dir a),
                  Preprocess train_dataset ''greedy'', Preprocess test_dataset ''greedy'']
               \<and> x_dataset x (worker_head a l n
                    @ [CNNDMSummarizationDataset (TOP_N a) (data_dir a)])
                   = Inr (train_dataset, test_dataset)))
       \<and> ((\<exists>p. TorchLoad p \<in> set (log (snd (main_worker x l n s a w))))
            \<longleftrightarrow> train_file a \<noteq> None \<and> test_file a \<noteq> None)"
proof -
  from assms obtain acq ext_sum_train ext_sum_test rest
    where L: "log (snd (main_worker x l n s a w)) = worker_head a l n @ acq @ rest"
      and A: "acquired x a (worker_head a l n) acq ext_sum_train ext_sum_test"
      and R: "\<forall>e \<in> set rest. \<not> acquires e \<and> (\<forall>p. e \<noteq> TorchLoad p)"
    by (rule worker_acquisition)
  from R have fr: "filter acquires rest = []" by (simp add: filter_empty_conv)
  from A show ?thesis
  proof (cases rule: acquired_cases)
    case (1 train_dataset test_dataset)
    with R show ?thesis unfolding L
      by (auto simp: fr worker_head_def)
  next
    case (2 trf tef)
    with R show ?thesis unfolding L
      by (auto simp: fr worker_head_def)
  qed
qed

theorem data_acquisition_witness:
  "never_raises quiet_ext \<and> log fresh_world = []
   \<and> train_file file_args = Some ''train.pt'' \<and> test_file file_args = Some ''test.pt''
   \<and> filter acquires (log (snd (main_worker quiet_ext 0 1 sample_summarizer file_args fresh_world)))
       = [TorchLoad ''./train.pt'', TorchLoad ''./test.pt'']
   \<and> (train_file default_args = None \<or> test_file default_args = None)
   \<and> filter acquires (log (snd (main_worker quiet_ext 0 1 sample_summarizer default_args fresh_world)))
       = [CNNDMSummarizationDataset (- 1) ''./'', Preprocess [RawDoc 0, RawDoc 1] ''greedy'',
          Preprocess [RawDoc 2, RawDoc 3, RawDoc 4] ''greedy'']"
  using data_acquisition [where x = quiet_ext and w = fresh_world and a = file_args and l = 0
      and n = 1 and s = sample_summarizer]
    data_acquisition [where x = quiet_ext and w = fresh_world and a = default_args and l = 0
      and n = 1 and s = sample_summarizer]
  by (auto simp: never_raises_quiet_ext sample_constants sample_files quiet_ext_returns)


subsection \<open>Arguments of the training call\<close>




text \<open>
  C7. The \<^verbatim>\<open>save_every\<close> argument of \<^verbatim>\<open>fit\<close> is \<^verbatim>\<open>SAVE_EVERY\<close>, that is 1000, exactly
  when the worker's global rank is in \<open>{-1, 0}\<close>, and \<open>-1\<close> for every other rank.
\<close>

theorem save_every_on_rank_zero:
  assumes "never_raises x" and "node_count a * n \<noteq> 0" and "log w = []"
  shows "\<exists>c. fit_calls (log (snd (main_worker x l n s a w))) = [c]
       \<and> (fit_save_every c = SAVE_EVERY \<longleftrightarrow> rank a * n + l \<in> {- 1, 0})
       \<and> (rank a * n + l \<notin> {- 1, 0} \<longrightarrow> fit_save_every c = - 1)
       \<and> SAVE_EVERY = 1000"
  using worker_fit_calls [OF assms, of l s]
  by (auto simp: SAVE_EVERY_def)

theorem save_every_on_rank_zero_witness:
  "never_raises quiet_ext \<and> node_count default_args * 2 \<noteq> 0 \<and> log fresh_world = []
   \<and> rank default_args * 2 + 1 \<notin> {- 1, 0 :: int}
   \<and> map fit_save_every
       (fit_calls (log (snd (main_worker quiet_ext 1 2 sample_summarizer default_args fresh_world))))
     = [- 1]
   \<and> map fit_save_every
       (fit_calls (log (snd (main_worker quiet_ext 0 2 sample_summarizer default_args fresh_world))))
     = [1000]"
  using save_every_on_rank_zero [of quiet_ext default_args 2 fresh_world 1 sample_summarizer]
    save_every_on_rank_zero [of quiet_ext default_args 2 fresh_world 0 sample_summarizer]
  by (auto simp: never_raises_quiet_ext sample_constants)


subsection \<open>After the final barrier\<close>



text \<open>
  C10. The data set passed to \<^verbatim>\<open>predict\<close> is \<^verbatim>\<open>ext_sum_test[0:TOP_N]\<close>, where
  \<^verbatim>\<open>ext_sum_test\<close> is what the last acquisition call returned and \<^verbatim>\<open>TOP_N\<close> is \<open>-1\<close>
  when \<^verbatim>\<open>quick_run\<close> is \<^verbatim>\<open>"false"\<close> and 10 otherwise. In a full run the slice is the
  test set without its last document (one shorter than a non-empty test set); in a
  quick run it is the first ten documents at most.
\<close>

theorem held_out_slice:
  assumes "never_raises x" and "node_count a * n \<noteq> 0" and "log w = []"
    and "l \<in> {- 1, 0}" and "rank a = 0"
  shows "\<exists>ext_sum_test.
     (if train_file a = None \<or> test_file a = None
      then x_preprocess x (through_acquisition (log (snd (main_worker x l n s a w))))
      else x_torch_load x (through_acquisition (log (snd (main_worker x l n s a w)))))
       = Inr ext_sum_test
     \<and> predict_calls (log (snd (main_worker x l n s a w))) =
         [(py_slice ext_sum_test 0 (TOP_N a), 128)]
     \<and> TOP_N a = (if py_lower (quick_run a) = ''false'' then - 1 else 10)
     \<and> (py_lower (quick_run a) = ''false'' \<longrightarrow>
          py_slice ext_sum_test 0 (TOP_N a) = butlast ext_sum_test)
     \<and> (py_lower (quick_run a) = ''false'' \<and> ext_sum_test \<noteq> [] \<longrightarrow>
          length (py_slice ext_sum_test 0 (TOP_N a)) = length ext_sum_test - 1
          \<and> py_slice ext_sum_test 0 (TOP_N a) @ [last ext_sum_test] = ext_sum_test)
     \<and> (py_lower (quick_run a) \<noteq> ''false'' \<longrightarrow>
          py_slice ext_sum_test 0 (TOP_N a) = take 10 ext_sum_test)"
proof -
  from assms(1-3) obtain acq ext_sum_train ext_sum_test prediction
    where L: "log (snd (main_worker x l n s a w)) =
           worker_log a l n acq ext_sum_train ext_sum_test prediction"
      and A: "acquired x a (worker_head a l n) acq ext_sum_train ext_sum_test"
    by (rule worker_log_run)
  let ?rest = "(if l \<in> {- 1, 0} then [Barrier] else [])
       @ [fit_event a l n ext_sum_train, Barrier]
       @ (if l \<in> {- 1, 0} \<and> rank a = 0 then rank0_events a ext_sum_test prediction else [])
       @ [DestroyProcessGroup]"
  have rest: "\<forall>e \<in> set ?rest. \<not> acquires e"
    by (auto simp: fit_event_def rank0_events_def save_predict_events_def simp del: insert_iff)
  have through: "through_acquisition (log (snd (main_worker x l n s a w))) = worker_head a l n @ acq"
    using A
  proof (cases rule: acquired_cases)
    case (1 train_dataset test_dataset)
    have "through_acquisition ((worker_head a l n @ butlast acq) @ last acq # ?rest)
            = (worker_head a l n @ butlast acq) @ [last acq]"
      using rest 1(2) by (intro through_acquisition_append) simp_all
    then show ?thesis unfolding L worker_log_def using 1(2) by simp
  next
    case (2 trf tef)
    have "through_acquisition ((worker_head a l n @ butlast acq) @ last acq # ?rest)
            = (worker_head a l n @ butlast acq) @ [last acq]"
      using rest 2(3) by (intro through_acquisition_append) simp_all
    then show ?thesis unfolding L worker_log_def using 2(3) by simp
  qed
  have link: "(if train_file a = None \<or> test_file a = None
      then x_preprocess x (worker_head a l n @ acq)
      else x_torch_load x (worker_head a l n @ acq)) = Inr ext_sum_test"
    using A by (cases rule: acquired_cases) simp_all
  have pc: "predict_calls (log (snd (main_worker x l n s a w))) =
         [(py_slice ext_sum_test 0 (TOP_N a), 128)]"
    unfolding L using A assms(4,5)
    by (cases rule: acquired_cases)
       (simp_all add: worker_log_defs predict_calls_append predict_calls_writes del: insert_iff)
  have last: "ext_sum_test \<noteq> [] \<longrightarrow> butlast ext_sum_test @ [last ext_sum_test] = ext_sum_test"
    by simp
  show ?thesis
    apply (rule exI [of _ ext_sum_test])
    using link pc last unfolding through
    by (simp add: TOP_N_def py_slice_all_but_last py_slice_first_ten del: insert_iff)
qed

theorem held_out_slice_witness:
  "never_raises quiet_ext \<and> node_count default_args * 1 \<noteq> 0 \<and> log fresh_world = []
   \<and> (0 :: int) \<in> {- 1, 0} \<and> rank default_args = 0
   \<and> py_lower (quick_run default_args) = ''false''
   \<and> predict_calls
       (log (snd (main_worker quiet_ext 0 1 sample_summarizer default_args fresh_world)))
     = [([Sample 0, Sample 1], 128)]"
  using held_out_slice [where x = quiet_ext and w = fresh_world and a = default_args
      and l = 0 and n = 1 and s = sample_summarizer]
  by (auto simp: never_raises_quiet_ext sample_constants sample_files quiet_ext_returns
      default_args_def py_lower_false)


subsection \<open>The summary file\<close>

text \<open>
  C6 (as amended). When opening and writing do not raise, \<^verbatim>\<open>_write_list_to_file\<close> leaves
  in the file exactly the items in list order, each followed by one newline character,
  and touches no other file. The number of lines equals the number of items provided
  that no item contains a newline character itself.
\<close>

theorem summaries_file:
  assumes "never_raises x"
  shows "fst (write_list_to_file x list_items filename w) = Inr ()
     \<and> files (snd (write_list_to_file x list_items filename w)) filename =
         Some (concat (map (\<lambda>item. item @ [CHR 0x0A]) list_items))
     \<and> (\<forall>f. f \<noteq> filename \<longrightarrow>
          files (snd (write_list_to_file x list_items filename w)) f = files w f)
     \<and> ((\<forall>item \<in> set list_items. CHR 0x0A \<notin> set item) \<longrightarrow>
          line_count (concat (map (\<lambda>item. item @ [CHR 0x0A]) list_items)) = length list_items)"
proof -
  have xr: "\<forall>h. x_raises x h = None"
    using never_raisesD(1) [OF assms] by simp
  show ?thesis
    using line_count_summary_text [of list_items]
    by (simp add: write_list_to_file_returns [OF xr] summary_text_def)
qed

theorem summaries_file_witness:
  "never_raises quiet_ext
   \<and> files (snd (write_list_to_file quiet_ext [''ab'', ''c''] ''out.txt'' fresh_world)) ''out.txt''
     = Some [CHR ''a'', CHR ''b'', CHR 0x0A, CHR ''c'', CHR 0x0A]
   \<and> ''in.txt'' \<noteq> ''out.txt''
   \<and> files (snd (write_list_to_file quiet_ext [''ab'', ''c''] ''out.txt'' fresh_world)) ''in.txt''
     = files fresh_world ''in.txt''
   \<and> CHR 0x0A \<notin> set ''ab'' \<and> CHR 0x0A \<notin> set ''c''
   \<and> line_count [CHR ''a'', CHR ''b'', CHR 0x0A, CHR ''c'', CHR 0x0A] = 2"
  using summaries_file [of quiet_ext "[''ab'', ''c'']" "''out.txt''" fresh_world]
  by (simp add: never_raises_quiet_ext)

text \<open>
  C6 as first stated gives as many lines as predictions for every list of strings. One
  summary with a line break in it makes a file of two lines.
\<close>

theorem more_lines_than_summaries:
  "files (snd (write_list_to_file quiet_ext [broken_summary] ''out.txt'' fresh_world)) ''out.txt''
     = Some (broken_summary @ [CHR 0x0A])
   \<and> line_count (broken_summary @ [CHR 0x0A]) \<noteq> length [broken_summary]"
proof -
  have xr: "\<forall>h. x_raises quiet_ext h = None"
    by (simp add: quiet_ext_returns)
  show ?thesis
    by (simp add: write_list_to_file_returns [OF xr] broken_summary_def line_count_def)
qed


subsection \<open>Errors\<close>



end
